theory Spec2Isabelle
  imports Complex_Main "HOL-Library.Product_Lexorder"
begin

section \<open>Time\<close>

text \<open>
  A \<^verbatim>\<open>datetime\<close> is the number of microseconds since the epoch and a
  \<^verbatim>\<open>timedelta\<close> a number of microseconds, both unbounded integers. Every call of
  \<^verbatim>\<open>datetime.utcnow()\<close> in the source is a parameter of the function that makes it
  (one parameter per call), so that two readings inside one function may differ.
\<close>

type_synonym datetime = int
type_synonym timedelta = int

definition timedelta_minutes :: "int \<Rightarrow> timedelta" where
  "timedelta_minutes m = m * 60000000"

text \<open>
  \<^verbatim>\<open>timedelta(hours=h)\<close> for the hours of \<^verbatim>\<open>REVIEW_INTERVALS\<close>, which are the
  Python numbers 0.5, 4, 24, 72 and 168: all of them are exact rationals and give a whole
  number of microseconds, so the rounding of \<^verbatim>\<open>timedelta\<close> never acts on them.
\<close>

definition timedelta_hours :: "rat \<Rightarrow> timedelta" where
  "timedelta_hours h = \<lfloor>h * 3600000000\<rfloor>"


section \<open>config/settings.py: LearningConfig\<close>

definition REVIEW_INTERVALS :: "((int \<times> int) \<times> rat) list" where
  "REVIEW_INTERVALS =
     [((0, 20), 1 / 2), ((21, 50), 4), ((51, 70), 24), ((71, 89), 72), ((90, 100), 168)]"

definition CORRECT_ANSWER_BOOST :: int where
  "CORRECT_ANSWER_BOOST = 15"

definition INCORRECT_ANSWER_PENALTY :: int where
  "INCORRECT_ANSWER_PENALTY = 10"

definition MIN_KNOWLEDGE :: int where
  "MIN_KNOWLEDGE = 0"

definition MAX_KNOWLEDGE :: int where
  "MAX_KNOWLEDGE = 100"

text \<open>
  The \<^verbatim>\<open>for\<close> loop of \<^verbatim>\<open>get_review_interval\<close> over the items of the dictionary, in
  insertion order; the empty list is the \<^verbatim>\<open>return 168\<close> after the loop.
\<close>

fun review_interval_loop :: "((int \<times> int) \<times> rat) list \<Rightarrow> int \<Rightarrow> rat" where
  "review_interval_loop [] knowledge_percent = 168"
| "review_interval_loop (((min_k, max_k), hours) # rest) knowledge_percent =
     (if min_k \<le> knowledge_percent \<and> knowledge_percent \<le> max_k then hours
      else review_interval_loop rest knowledge_percent)"

definition get_review_interval :: "int \<Rightarrow> rat" where
  "get_review_interval knowledge_percent =
     review_interval_loop REVIEW_INTERVALS knowledge_percent"


section \<open>database/models.py\<close>

text \<open>
  One record per table. The columns \<^verbatim>\<open>created_at\<close> and \<^verbatim>\<open>updated_at\<close> of
  \<^verbatim>\<open>users\<close>, \<^verbatim>\<open>words\<close> and \<^verbatim>\<open>user_word_progress\<close> are written and never read
  by the repository; they are left out. \<^verbatim>\<open>task_history.created_at\<close> is read by
  \<^verbatim>\<open>get_last_pending_task\<close> and is kept.
\<close>

record user =
  u_id :: int
  u_telegram_id :: int
  u_is_active :: bool
  u_interval_minutes :: int
  u_do_not_disturb_until :: "datetime option"

record word =
  w_id :: int
  w_word_en :: string
  w_word_ru :: string

record progress =
  p_id :: int
  p_user_id :: int
  p_word_id :: int
  p_knowledge_percent :: int
  p_last_reviewed_at :: "datetime option"
  p_next_review_at :: datetime
  p_correct_answers_count :: int
  p_total_answers_count :: int

text \<open>
  The JSON of a task (\<^verbatim>\<open>task_content\<close>) as the keys the code reads; \<open>None\<close> is an
  absent key, and a key that is present has the JSON type the prompts ask for.
  \<^verbatim>\<open>json.dumps\<close> followed by \<^verbatim>\<open>json.loads\<close> gives the value back, so the column holds
  the value itself. JSON that is not an object is \<open>Non_object\<close>.
\<close>

record task_data =
  td_task_type :: "string option"
  td_sentence_ru :: "string option"
  td_sentence_en :: "string option"
  td_correct_answer_en :: "string option"
  td_correct_answer_ru :: "string option"
  td_question :: "string option"
  td_options :: "string list option"
  td_correct_index :: "int option"

datatype 'a json = Obj 'a | Non_object

text \<open>
  The texts stored in \<^verbatim>\<open>ai_feedback\<close>: the classifier's own text, the two literals of
  \<^verbatim>\<open>handle_multiple_choice_answer\<close> (the second one quotes the right option) and the two
  of the last branch of \<^verbatim>\<open>check_answer\<close>.
\<close>

datatype feedback =
  Fb_classifier string
  | Fb_choice_right
  | Fb_choice_wrong string
  | Fb_exact_right
  | Fb_exact_wrong string

record task =
  t_id :: int
  t_user_id :: int
  t_word_id :: int
  t_task_type :: string
  t_task_content :: "task_data json"
  t_user_answer :: "string option"
  t_is_correct :: "bool option"
  t_ai_feedback :: "feedback option"
  t_created_at :: datetime

text \<open>The database: every table is the list of its rows in insertion order.\<close>

record db =
  users :: "user list"
  words :: "word list"
  user_word_progress :: "progress list"
  task_history :: "task list"

text \<open>An autoincrement primary key: one more than the largest key of the table.\<close>

definition next_id :: "int list \<Rightarrow> int" where
  "next_id ids = fold max ids 0 + 1"


section \<open>Exceptions, messages and results\<close>

datatype error =
  IndexError
  | TypeError
  | AttributeError
  | ValueError
  | RuntimeError
  | MultipleResultsFound
  | UnmappedInstanceError
  | InvalidRequestError

text \<open>
  What the bot sends to the learner, one constructor per literal text of the source:
  \<^item> \<open>All_reviewed\<close>, \<open>Generation_failed\<close>: the two notices of \<^verbatim>\<open>send_task_to_user\<close>;
  \<^item> \<open>Translate_to_en\<close>, \<open>Translate_to_ru\<close>, \<open>Multiple_choice\<close>: the three questions
    of \<^verbatim>\<open>_send_task_message\<close>, the last with its question and its keyboard;
  \<^item> \<open>No_active_task\<close>, \<open>Needs_choice\<close>, \<open>Text_graded\<close>, \<open>Check_failed\<close>: the replies
    of \<^verbatim>\<open>handle_text_answer\<close>;
  \<^item> \<open>Alert_not_found\<close>, \<open>Alert_already_answered\<close>, \<open>Choice_graded\<close>,
    \<open>Callback_ack\<close>: those of \<^verbatim>\<open>handle_multiple_choice_answer\<close>.
  A button is its text with the task id and the option index of its callback data
  \<^verbatim>\<open>answer_{task_id}_{idx}\<close>.
\<close>

type_synonym button = "string \<times> int \<times> nat"

datatype message =
  All_reviewed
  | Generation_failed
  | Translate_to_en "string option"
  | Translate_to_ru "string option"
  | Multiple_choice "string option" "button list"
  | No_active_task
  | Needs_choice
  | Text_graded bool "feedback option" int
  | Check_failed
  | Alert_not_found
  | Alert_already_answered
  | Choice_graded feedback int
  | Callback_ack

text \<open>
  What a coroutine did: the database after each \<^verbatim>\<open>session.commit()\<close> in order, the
  messages it sent in order, and the exception that left it, if one did.
\<close>

record outcome =
  commits :: "db list"
  sent :: "message list"
  raised :: "error option"

definition final_db :: "db \<Rightarrow> outcome \<Rightarrow> db" where
  "final_db s r = last (s # commits r)"

text \<open>\<^verbatim>\<open>except Exception\<close> with a handler that sends one message.\<close>

definition except_send :: "message \<Rightarrow> outcome \<Rightarrow> outcome" where
  "except_send m r =
     (case raised r of
        None \<Rightarrow> r
      | Some e \<Rightarrow> r\<lparr>sent := sent r @ [m], raised := None\<rparr>)"

text \<open>Python's truth value of an optional boolean: \<^verbatim>\<open>None\<close> and \<^verbatim>\<open>False\<close> are false.\<close>

definition truthy :: "bool option \<Rightarrow> bool" where
  "truthy b = (b = Some True)"

text \<open>\<^verbatim>\<open>xs[i]\<close> on a Python list: a negative index counts from the end.\<close>

definition py_getitem :: "'a list \<Rightarrow> int \<Rightarrow> error + 'a" where
  "py_getitem xs i =
     (if 0 \<le> i \<and> i < int (length xs) then Inr (xs ! nat i)
      else if i < 0 \<and> - int (length xs) \<le> i then Inr (xs ! nat (int (length xs) + i))
      else Inl IndexError)"

text \<open>
  \<^verbatim>\<open>scalar_one_or_none()\<close>: no row gives \<^verbatim>\<open>None\<close>, one row gives the row, more rows
  raise.
\<close>

definition scalar_one_or_none :: "'a list \<Rightarrow> error + 'a option" where
  "scalar_one_or_none rows =
     (case rows of
        [] \<Rightarrow> Inr None
      | [r] \<Rightarrow> Inr (Some r)
      | _ \<Rightarrow> Inl MultipleResultsFound)"


section \<open>database/crud.py\<close>

subsection \<open>Users\<close>

definition create_user :: "db \<Rightarrow> int \<Rightarrow> db \<times> user" where
  "create_user s telegram_id =
     (let u = \<lparr>u_id = next_id (map u_id (users s)), u_telegram_id = telegram_id,
                u_is_active = False, u_interval_minutes = 30,
                u_do_not_disturb_until = None\<rparr>
      in (s\<lparr>users := users s @ [u]\<rparr>, u))"

text \<open>
  \<^verbatim>\<open>telegram_id\<close> is a unique column, so the query has at most one row and
  \<^verbatim>\<open>scalar_one_or_none\<close> cannot raise here.
\<close>

definition get_user_by_telegram_id :: "db \<Rightarrow> int \<Rightarrow> user option" where
  "get_user_by_telegram_id s telegram_id =
     find (\<lambda>u. u_telegram_id u = telegram_id) (users s)"

text \<open>Returns the commits it made, the database and the user.\<close>

definition get_or_create_user :: "db \<Rightarrow> int \<Rightarrow> db list \<times> db \<times> user" where
  "get_or_create_user s telegram_id =
     (case get_user_by_telegram_id s telegram_id of
        Some u \<Rightarrow> ([], s, u)
      | None \<Rightarrow> (let (s', u) = create_user s telegram_id in ([s'], s', u)))"

definition set_do_not_disturb :: "db \<Rightarrow> int \<Rightarrow> int \<Rightarrow> datetime \<Rightarrow> db" where
  "set_do_not_disturb s user_id minutes now =
     (let until = now + timedelta_minutes minutes
      in s\<lparr>users := map (\<lambda>u. if u_id u = user_id
                                then u\<lparr>u_do_not_disturb_until := Some until\<rparr> else u)
                         (users s)\<rparr>)"

definition clear_do_not_disturb :: "db \<Rightarrow> int \<Rightarrow> db" where
  "clear_do_not_disturb s user_id =
     s\<lparr>users := map (\<lambda>u. if u_id u = user_id
                           then u\<lparr>u_do_not_disturb_until := None\<rparr> else u)
                    (users s)\<rparr>"

subsection \<open>Progress\<close>

definition create_user_word_progress :: "db \<Rightarrow> int \<Rightarrow> int \<Rightarrow> datetime \<Rightarrow> db \<times> progress" where
  "create_user_word_progress s user_id word_id now =
     (let p = \<lparr>p_id = next_id (map p_id (user_word_progress s)), p_user_id = user_id,
                p_word_id = word_id, p_knowledge_percent = 0, p_last_reviewed_at = None,
                p_next_review_at = now, p_correct_answers_count = 0,
                p_total_answers_count = 0\<rparr>
      in (s\<lparr>user_word_progress := user_word_progress s @ [p]\<rparr>, p))"

text \<open>No unique constraint covers the pair, so \<^verbatim>\<open>scalar_one_or_none\<close> can raise.\<close>

definition get_user_word_progress :: "db \<Rightarrow> int \<Rightarrow> int \<Rightarrow> error + progress option" where
  "get_user_word_progress s user_id word_id =
     scalar_one_or_none
       (filter (\<lambda>p. p_user_id p = user_id \<and> p_word_id p = word_id) (user_word_progress s))"

text \<open>
  The three keys of the \<^verbatim>\<open>order_by\<close>, compared lexicographically:
  \<^verbatim>\<open>last_reviewed_at IS NULL\<close> descending (true first), \<^verbatim>\<open>knowledge_percent\<close>
  ascending, \<^verbatim>\<open>next_review_at\<close> ascending. SQL leaves the order of rows with equal
  keys open; the stable sort keeps them in table order.
\<close>

definition review_key :: "progress \<Rightarrow> nat \<times> int \<times> int" where
  "review_key p =
     (if p_last_reviewed_at p = None then 0 else 1, p_knowledge_percent p, p_next_review_at p)"

text \<open>The \<^verbatim>\<open>where\<close> clause of \<^verbatim>\<open>get_words_for_review\<close>.\<close>

definition is_due :: "int \<Rightarrow> datetime \<Rightarrow> progress \<Rightarrow> bool" where
  "is_due user_id now p = (p_user_id p = user_id \<and> p_next_review_at p \<le> now)"

definition get_words_for_review :: "db \<Rightarrow> int \<Rightarrow> nat \<Rightarrow> datetime \<Rightarrow> progress list" where
  "get_words_for_review s user_id limit now =
     take limit (sort_key review_key (filter (is_due user_id now) (user_word_progress s)))"

text \<open>
  The assignments of \<^verbatim>\<open>update_word_progress\<close> to the loaded row, in the source's order.
  \<open>t_reviewed\<close> and \<open>t_next\<close> are the clock readings of lines 190 and 194.
\<close>

definition reviewed :: "progress \<Rightarrow> bool option \<Rightarrow> datetime \<Rightarrow> datetime \<Rightarrow> progress" where
  "reviewed p is_correct t_reviewed t_next =
     (let p1 = p\<lparr>p_total_answers_count := p_total_answers_count p + 1\<rparr>;
          p2 = (if truthy is_correct
                then p1\<lparr>p_correct_answers_count := p_correct_answers_count p1 + 1,
                        p_knowledge_percent :=
                          min MAX_KNOWLEDGE (p_knowledge_percent p1 + CORRECT_ANSWER_BOOST)\<rparr>
                else p1\<lparr>p_knowledge_percent :=
                          max MIN_KNOWLEDGE (p_knowledge_percent p1 - INCORRECT_ANSWER_PENALTY)\<rparr>);
          p3 = p2\<lparr>p_last_reviewed_at := Some t_reviewed\<rparr>;
          interval_hours = get_review_interval (p_knowledge_percent p3)
      in p3\<lparr>p_next_review_at := t_next + timedelta_hours interval_hours\<rparr>)"

text \<open>
  \<open>None\<close> is the early \<^verbatim>\<open>return\<close> when the row does not exist (nothing is committed);
  otherwise the row with this primary key is written and committed.
\<close>

definition update_word_progress ::
  "db \<Rightarrow> int \<Rightarrow> bool option \<Rightarrow> datetime \<Rightarrow> datetime \<Rightarrow> db option" where
  "update_word_progress s progress_id is_correct t_reviewed t_next =
     (case find (\<lambda>p. p_id p = progress_id) (user_word_progress s) of
        None \<Rightarrow> None
      | Some progress \<Rightarrow>
          Some (s\<lparr>user_word_progress :=
                    map (\<lambda>p. if p_id p = progress_id
                              then reviewed progress is_correct t_reviewed t_next else p)
                        (user_word_progress s)\<rparr>))"

subsection \<open>Task history\<close>

text \<open>\<open>t_insert\<close> is the clock reading of the column default of \<^verbatim>\<open>created_at\<close>.\<close>

definition create_task_history ::
  "db \<Rightarrow> int \<Rightarrow> int \<Rightarrow> string \<Rightarrow> task_data json \<Rightarrow> datetime \<Rightarrow> db \<times> task" where
  "create_task_history s user_id word_id task_type task_content t_insert =
     (let t = \<lparr>t_id = next_id (map t_id (task_history s)), t_user_id = user_id,
                t_word_id = word_id, t_task_type = task_type, t_task_content = task_content,
                t_user_answer = None, t_is_correct = None, t_ai_feedback = None,
                t_created_at = t_insert\<rparr>
      in (s\<lparr>task_history := task_history s @ [t]\<rparr>, t))"

definition update_task_history_answer ::
  "db \<Rightarrow> int \<Rightarrow> string \<Rightarrow> bool option \<Rightarrow> feedback option \<Rightarrow> db" where
  "update_task_history_answer s task_id user_answer is_correct ai_feedback =
     s\<lparr>task_history :=
         map (\<lambda>t. if t_id t = task_id
                   then t\<lparr>t_user_answer := Some user_answer, t_is_correct := is_correct,
                          t_ai_feedback := ai_feedback\<rparr>
                   else t)
             (task_history s)\<rparr>"

text \<open>
  \<open>pending_tasks\<close> is the \<^verbatim>\<open>where\<close> clause of \<^verbatim>\<open>get_last_pending_task\<close>: the
  learner's rows whose \<^verbatim>\<open>is_correct\<close> is null. Then
  \<^verbatim>\<open>ORDER BY created_at DESC LIMIT 1\<close>: the stable sort on the negated time puts the
  latest row first and keeps rows of equal time in table order.
\<close>

definition pending_tasks :: "db \<Rightarrow> int \<Rightarrow> task list" where
  "pending_tasks s user_id =
     filter (\<lambda>t. t_user_id t = user_id \<and> t_is_correct t = None) (task_history s)"

definition get_last_pending_task :: "db \<Rightarrow> int \<Rightarrow> task option" where
  "get_last_pending_task s user_id =
     (case sort_key (\<lambda>t. - t_created_at t) (pending_tasks s user_id) of
        [] \<Rightarrow> None
      | t # _ \<Rightarrow> Some t)"


section \<open>services/ai\_service.py\<close>

text \<open>
  One call of the chat completion API, with the parsing that follows it: the call raised,
  the text was no JSON, or the JSON value. The model's answer is not a function of the
  prompt, so each call takes its answer as a parameter.
\<close>

datatype 'a completion = Api_failure | Invalid_json | Parsed "'a json"

record verdict =
  v_is_correct :: "bool option"
  v_feedback :: "feedback option"

definition task_types :: "string list" where
  "task_types = [''translation_to_en'', ''translation_to_ru'',
                 ''multiple_choice_en_to_ru'', ''multiple_choice_ru_to_en'']"

definition ai_call :: "'a completion \<Rightarrow> error + 'a json" where
  "ai_call ai =
     (case ai of
        Api_failure \<Rightarrow> Inl RuntimeError
      | Invalid_json \<Rightarrow> Inl ValueError
      | Parsed j \<Rightarrow> Inr j)"

definition generate_task ::
  "task_data completion \<Rightarrow> string \<Rightarrow> string \<Rightarrow> string \<Rightarrow> error + task_data json" where
  "generate_task ai word_en word_ru task_type =
     (if task_type \<in> set task_types then ai_call ai else Inl ValueError)"

text \<open>
  \<open>strip_lower\<close> stands for \<^verbatim>\<open>.strip().lower()\<close> of the Python library; it is used by the last
  branch only, where a missing right answer makes \<^verbatim>\<open>correct_answer.strip()\<close> raise.
\<close>

definition check_answer ::
  "(string \<Rightarrow> string) \<Rightarrow> verdict completion \<Rightarrow> task_data \<Rightarrow> string \<Rightarrow> string option
     \<Rightarrow> error + verdict json" where
  "check_answer strip_lower ai task_content user_answer correct_answer =
     (if td_task_type task_content = Some ''translation_to_en'' then ai_call ai
      else if td_task_type task_content = Some ''translation_to_ru'' then ai_call ai
      else (case correct_answer of
              None \<Rightarrow> Inl AttributeError
            | Some ca \<Rightarrow>
                (let is_correct = (strip_lower user_answer = strip_lower ca)
                 in Inr (Obj \<lparr>v_is_correct = Some is_correct,
                              v_feedback = Some (if is_correct then Fb_exact_right
                                                 else Fb_exact_wrong ca)\<rparr>))))"


section \<open>bot/keyboards.py\<close>

definition get_multiple_choice_keyboard :: "string list \<Rightarrow> int \<Rightarrow> button list" where
  "get_multiple_choice_keyboard options task_id =
     map (\<lambda>(idx, option). (option, task_id, idx)) (enumerate 0 options)"


section \<open>scheduler/tasks.py\<close>

definition option_list :: "string list option \<Rightarrow> string list" where
  "option_list os = (case os of None \<Rightarrow> [] | Some l \<Rightarrow> l)"

text \<open>
  \<^verbatim>\<open>_send_task_message\<close>: the messages it sends, or the exception of \<^verbatim>\<open>.get\<close> on
  JSON that is no object. A payload whose \<^verbatim>\<open>task_type\<close> is none of the four sends
  nothing.
\<close>

definition send_task_message :: "task_data json \<Rightarrow> int \<Rightarrow> error + message list" where
  "send_task_message task_data task_id =
     (case task_data of
        Non_object \<Rightarrow> Inl AttributeError
      | Obj td \<Rightarrow>
          if td_task_type td = Some ''translation_to_en''
          then Inr [Translate_to_en (td_sentence_ru td)]
          else if td_task_type td = Some ''translation_to_ru''
          then Inr [Translate_to_ru (td_sentence_en td)]
          else if td_task_type td = Some ''multiple_choice_en_to_ru''
                  \<or> td_task_type td = Some ''multiple_choice_ru_to_en''
          then Inr [Multiple_choice (td_question td)
                      (get_multiple_choice_keyboard (option_list (td_options td)) task_id)]
          else Inr [])"

text \<open>
  The \<^verbatim>\<open>try\<close> block of \<^verbatim>\<open>send_task_to_user\<close> (lines 78 to 96). \<open>word\<close> is the
  related word loaded by \<^verbatim>\<open>session.refresh\<close>, \<open>None\<close> when the row is gone, and then
  \<^verbatim>\<open>word.word_en\<close> raises inside the block.
\<close>

definition issue_attempt ::
  "task_data completion \<Rightarrow> datetime \<Rightarrow> db \<Rightarrow> int \<Rightarrow> word option \<Rightarrow> string \<Rightarrow> outcome" where
  "issue_attempt ai t_insert s user_id word task_type =
     (case word of
        None \<Rightarrow> \<lparr>commits = [], sent = [], raised = Some AttributeError\<rparr>
      | Some w \<Rightarrow>
          (case generate_task ai (w_word_en w) (w_word_ru w) task_type of
             Inl e \<Rightarrow> \<lparr>commits = [], sent = [], raised = Some e\<rparr>
           | Inr task_data \<Rightarrow>
               (let (s1, task_row) =
                      create_task_history s user_id (w_id w) task_type task_data t_insert
                in case send_task_message task_data (t_id task_row) of
                     Inl e \<Rightarrow> \<lparr>commits = [s1], sent = [], raised = Some e\<rparr>
                   | Inr msgs \<Rightarrow> \<lparr>commits = [s1], sent = msgs, raised = None\<rparr>)))"

text \<open>
  One tick. \<open>rnd\<close> is the draw of \<^verbatim>\<open>random.choice\<close>, \<open>ai\<close> the generator's answer,
  \<open>t_dnd\<close> and \<open>t_query\<close> the clock readings of line 49 and of
  \<^verbatim>\<open>get_words_for_review\<close>, \<open>t_insert\<close> the one of the new row.
\<close>

definition send_task_to_user ::
  "nat \<Rightarrow> task_data completion \<Rightarrow> datetime \<Rightarrow> datetime \<Rightarrow> datetime \<Rightarrow> db \<Rightarrow> int \<Rightarrow> int
     \<Rightarrow> outcome" where
  "send_task_to_user rnd ai t_dnd t_query t_insert s user_id telegram_id =
     (case get_user_by_telegram_id s telegram_id of
        None \<Rightarrow> \<lparr>commits = [], sent = [], raised = None\<rparr>
      | Some user \<Rightarrow>
          if \<not> u_is_active user then \<lparr>commits = [], sent = [], raised = None\<rparr>
          else if (case u_do_not_disturb_until user of
                     None \<Rightarrow> False
                   | Some until \<Rightarrow> t_dnd < until)
          then \<lparr>commits = [], sent = [], raised = None\<rparr>
          else (case get_words_for_review s user_id 1 t_query of
                  [] \<Rightarrow> \<lparr>commits = [], sent = [All_reviewed], raised = None\<rparr>
                | progress # _ \<Rightarrow>
                    (let word = find (\<lambda>w. w_id w = p_word_id progress) (words s);
                         task_type = task_types ! (rnd mod length task_types)
                     in except_send Generation_failed
                          (issue_attempt ai t_insert s user_id word task_type))))"


section \<open>bot/handlers/answers.py\<close>

text \<open>\<^verbatim>\<open>session.refresh(progress)\<close>: the row is read again by its primary key.\<close>

definition refresh_progress :: "db \<Rightarrow> int \<Rightarrow> error + progress" where
  "refresh_progress s progress_id =
     (case find (\<lambda>p. p_id p = progress_id) (user_word_progress s) of
        None \<Rightarrow> Inl InvalidRequestError
      | Some p \<Rightarrow> Inr p)"

text \<open>
  The lines both handlers share (80 to 82 with 91, and 156 to 161): look the progress row
  up, update it if there is one, read it again. Without a row the update is skipped and
  \<^verbatim>\<open>session.refresh(None)\<close> raises. The result is the commits made and the row read.
\<close>

definition advance_progress ::
  "db \<Rightarrow> int \<Rightarrow> int \<Rightarrow> bool option \<Rightarrow> datetime \<Rightarrow> datetime \<Rightarrow> db list \<times> (error + progress)" where
  "advance_progress s user_id word_id is_correct t_reviewed t_next =
     (case get_user_word_progress s user_id word_id of
        Inl e \<Rightarrow> ([], Inl e)
      | Inr None \<Rightarrow> ([], Inl UnmappedInstanceError)
      | Inr (Some progress) \<Rightarrow>
          (case update_word_progress s (p_id progress) is_correct t_reviewed t_next of
             None \<Rightarrow> ([], refresh_progress s (p_id progress))
           | Some s' \<Rightarrow> ([s'], refresh_progress s' (p_id progress))))"

text \<open>The \<^verbatim>\<open>try\<close> block of \<^verbatim>\<open>handle_text_answer\<close> (lines 59 to 94).\<close>

definition grade_text_attempt ::
  "(string \<Rightarrow> string) \<Rightarrow> verdict completion \<Rightarrow> datetime \<Rightarrow> datetime \<Rightarrow> db \<Rightarrow> user \<Rightarrow> task
     \<Rightarrow> task_data \<Rightarrow> string \<Rightarrow> string option \<Rightarrow> outcome" where
  "grade_text_attempt strip_lower ai t_reviewed t_next s user task_row task_data user_answer
       correct_answer =
     (case check_answer strip_lower ai task_data user_answer correct_answer of
        Inl e \<Rightarrow> \<lparr>commits = [], sent = [], raised = Some e\<rparr>
      | Inr Non_object \<Rightarrow> \<lparr>commits = [], sent = [], raised = Some AttributeError\<rparr>
      | Inr (Obj check_result) \<Rightarrow>
          (let is_correct = v_is_correct check_result;
               feedback = v_feedback check_result;
               s1 = update_task_history_answer s (t_id task_row) user_answer is_correct feedback;
               (cs, r) = advance_progress s1 (u_id user) (t_word_id task_row) is_correct
                           t_reviewed t_next
           in case r of
                Inl e \<Rightarrow> \<lparr>commits = s1 # cs, sent = [], raised = Some e\<rparr>
              | Inr progress \<Rightarrow>
                  \<lparr>commits = s1 # cs,
                   sent = [Text_graded (truthy is_correct) feedback (p_knowledge_percent progress)],
                   raised = None\<rparr>))"

definition handle_text_answer ::
  "(string \<Rightarrow> string) \<Rightarrow> verdict completion \<Rightarrow> datetime \<Rightarrow> datetime \<Rightarrow> db \<Rightarrow> int \<Rightarrow> string
     \<Rightarrow> outcome" where
  "handle_text_answer strip_lower ai t_reviewed t_next s sender text =
     (let (c0, s0, user) = get_or_create_user s sender
      in case get_last_pending_task s0 (u_id user) of
           None \<Rightarrow> \<lparr>commits = c0, sent = [No_active_task], raised = None\<rparr>
         | Some task_row \<Rightarrow>
             (case t_task_content task_row of
                Non_object \<Rightarrow> \<lparr>commits = c0, sent = [], raised = Some AttributeError\<rparr>
              | Obj task_data \<Rightarrow>
                  if td_task_type task_data \<noteq> Some ''translation_to_en''
                     \<and> td_task_type task_data \<noteq> Some ''translation_to_ru''
                  then \<lparr>commits = c0, sent = [Needs_choice], raised = None\<rparr>
                  else (let correct_answer =
                              (if td_task_type task_data = Some ''translation_to_en''
                               then td_correct_answer_en task_data
                               else td_correct_answer_ru task_data);
                            r = except_send Check_failed
                                  (grade_text_attempt strip_lower ai t_reviewed t_next s0 user
                                     task_row task_data text correct_answer)
                        in r\<lparr>commits := c0 @ commits r\<rparr>)))"

text \<open>
  \<^verbatim>\<open>handle_multiple_choice_answer\<close> from line 115 on, with the two integers that lines
  111 to 113 parse from the callback data \<^verbatim>\<open>answer_{task_id}_{option_index}\<close>. Nothing
  catches an exception here.
\<close>

definition handle_multiple_choice_answer ::
  "datetime \<Rightarrow> datetime \<Rightarrow> db \<Rightarrow> int \<Rightarrow> int \<Rightarrow> int \<Rightarrow> outcome" where
  "handle_multiple_choice_answer t_reviewed t_next s sender task_id selected_index =
     (let (c0, s0, user) = get_or_create_user s sender
      in case find (\<lambda>t. t_id t = task_id) (task_history s0) of
           None \<Rightarrow> \<lparr>commits = c0, sent = [Alert_not_found], raised = None\<rparr>
         | Some task_row \<Rightarrow>
             if t_is_correct task_row \<noteq> None
             then \<lparr>commits = c0, sent = [Alert_already_answered], raised = None\<rparr>
             else (case t_task_content task_row of
                Non_object \<Rightarrow> \<lparr>commits = c0, sent = [], raised = Some AttributeError\<rparr>
              | Obj task_data \<Rightarrow>
                  (let options = option_list (td_options task_data);
                       correct_index = td_correct_index task_data;
                       is_correct = (Some selected_index = correct_index)
                   in case py_getitem options selected_index of
                        Inl e \<Rightarrow> \<lparr>commits = c0, sent = [], raised = Some e\<rparr>
                      | Inr user_answer \<Rightarrow>
                          (case (case correct_index of
                                   None \<Rightarrow> Inl TypeError
                                 | Some ci \<Rightarrow> py_getitem options ci) of
                             Inl e \<Rightarrow> \<lparr>commits = c0, sent = [], raised = Some e\<rparr>
                           | Inr correct_answer \<Rightarrow>
                               (let feedback = (if is_correct then Fb_choice_right
                                                else Fb_choice_wrong correct_answer);
                                    s1 = update_task_history_answer s0 (t_id task_row)
                                           user_answer (Some is_correct) (Some feedback);
                                    (cs, r) = advance_progress s1 (u_id user)
                                                (t_word_id task_row) (Some is_correct)
                                                t_reviewed t_next
                                in case r of
                                     Inl e \<Rightarrow>
                                       \<lparr>commits = c0 @ s1 # cs, sent = [], raised = Some e\<rparr>
                                   | Inr progress \<Rightarrow>
                                       \<lparr>commits = c0 @ s1 # cs,
                                        sent = [Choice_graded feedback
                                                  (p_knowledge_percent progress),
                                                Callback_ack],
                                        raised = None\<rparr>)))))"


section \<open>The priority of the specification\<close>

text \<open>
  The comparator as the specification words it, to be compared with \<open>review_key\<close>:
  \<open>p\<close> comes strictly before \<open>q\<close> when \<open>p\<close> was never reviewed and \<open>q\<close> was, or, both
  being alike in that, when \<open>p\<close> has the lower knowledge score, or the same score and the
  earlier due time.
\<close>

definition spec_outranks :: "progress \<Rightarrow> progress \<Rightarrow> bool" where
  "spec_outranks p q =
     ((p_last_reviewed_at p = None \<and> p_last_reviewed_at q \<noteq> None)
      \<or> ((p_last_reviewed_at p = None) = (p_last_reviewed_at q = None))
         \<and> (p_knowledge_percent p < p_knowledge_percent q
             \<or> p_knowledge_percent p = p_knowledge_percent q
                \<and> p_next_review_at p < p_next_review_at q))"


section \<open>Example data\<close>

definition ex_user :: user where
  "ex_user = \<lparr>u_id = 1, u_telegram_id = 501, u_is_active = True, u_interval_minutes = 30,
               u_do_not_disturb_until = None\<rparr>"

definition ex_words :: "word list" where
  "ex_words = [\<lparr>w_id = 1, w_word_en = ''apple'', w_word_ru = ''yabloko''\<rparr>,
               \<lparr>w_id = 2, w_word_en = ''book'', w_word_ru = ''kniga''\<rparr>,
               \<lparr>w_id = 3, w_word_en = ''cat'', w_word_ru = ''kot''\<rparr>]"

definition ex_progress :: progress where
  "ex_progress = \<lparr>p_id = 1, p_user_id = 1, p_word_id = 1, p_knowledge_percent = 40,
                   p_last_reviewed_at = Some 5, p_next_review_at = 50,
                   p_correct_answers_count = 3, p_total_answers_count = 4\<rparr>"

definition ex_fresh :: progress where
  "ex_fresh = \<lparr>p_id = 2, p_user_id = 1, p_word_id = 2, p_knowledge_percent = 0,
                p_last_reviewed_at = None, p_next_review_at = 90,
                p_correct_answers_count = 0, p_total_answers_count = 0\<rparr>"

definition ex_later :: progress where
  "ex_later = \<lparr>p_id = 3, p_user_id = 1, p_word_id = 3, p_knowledge_percent = 10,
                p_last_reviewed_at = Some 7, p_next_review_at = 200,
                p_correct_answers_count = 0, p_total_answers_count = 1\<rparr>"

definition ex_translation :: task_data where
  "ex_translation = \<lparr>td_task_type = Some ''translation_to_en'',
                      td_sentence_ru = Some ''Ya em yabloko'', td_sentence_en = None,
                      td_correct_answer_en = Some ''I eat an apple'',
                      td_correct_answer_ru = None, td_question = None, td_options = None,
                      td_correct_index = None\<rparr>"

definition ex_choice :: task_data where
  "ex_choice = \<lparr>td_task_type = Some ''multiple_choice_en_to_ru'', td_sentence_ru = None,
                 td_sentence_en = None, td_correct_answer_en = None,
                 td_correct_answer_ru = None, td_question = Some ''book?'',
                 td_options = Some [''kniga'', ''kot'', ''dom'', ''les''],
                 td_correct_index = Some 0\<rparr>"

definition ex_pending :: task where
  "ex_pending = \<lparr>t_id = 1, t_user_id = 1, t_word_id = 1, t_task_type = ''translation_to_en'',
                  t_task_content = Obj ex_translation, t_user_answer = None,
                  t_is_correct = None, t_ai_feedback = None, t_created_at = 60\<rparr>"

definition ex_answered :: task where
  "ex_answered = \<lparr>t_id = 1, t_user_id = 1, t_word_id = 1, t_task_type = ''translation_to_en'',
                   t_task_content = Obj ex_translation, t_user_answer = Some ''I eat an apple'',
                   t_is_correct = Some True, t_ai_feedback = Some (Fb_classifier ''Good''),
                   t_created_at = 60\<rparr>"

definition ex_choice_task :: task where
  "ex_choice_task = \<lparr>t_id = 2, t_user_id = 1, t_word_id = 2,
                      t_task_type = ''multiple_choice_en_to_ru'', t_task_content = Obj ex_choice,
                      t_user_answer = None, t_is_correct = None, t_ai_feedback = None,
                      t_created_at = 80\<rparr>"

text \<open>A learner with three words and one pending translation task.\<close>

definition ex_db :: db where
  "ex_db = \<lparr>users = [ex_user], words = ex_words,
             user_word_progress = [ex_progress, ex_fresh, ex_later],
             task_history = [ex_pending]\<rparr>"

text \<open>The same learner with an answered task and a pending multiple-choice task.\<close>

definition ex_db_choice :: db where
  "ex_db_choice = \<lparr>users = [ex_user], words = ex_words,
                    user_word_progress = [ex_progress, ex_fresh, ex_later],
                    task_history = [ex_answered, ex_choice_task]\<rparr>"

definition ex_tick :: outcome where
  "ex_tick = send_task_to_user 0 (Parsed (Obj ex_translation)) 100 100 100 ex_db 1 501"

definition ex_db_quiet :: db where
  "ex_db_quiet = set_do_not_disturb ex_db 1 60 0"

definition ex_db_no_index :: db where
  "ex_db_no_index =
     ex_db_choice\<lparr>task_history :=
       [ex_answered,
        ex_choice_task\<lparr>t_task_content := Obj (ex_choice\<lparr>td_correct_index := None\<rparr>)\<rparr>]\<rparr>"

definition ex_db_bad_index :: db where
  "ex_db_bad_index =
     ex_db_choice\<lparr>task_history :=
       [ex_answered,
        ex_choice_task\<lparr>t_task_content := Obj (ex_choice\<lparr>td_correct_index := Some 4\<rparr>)\<rparr>]\<rparr>"

definition ex_grade_right :: outcome where
  "ex_grade_right =
     handle_text_answer (\<lambda>x. x)
       (Parsed (Obj \<lparr>v_is_correct = Some True, v_feedback = Some (Fb_classifier ''Good'')\<rparr>))
       1000 1001 ex_db 501 ''I eat an apple''"

definition ex_grade_missing :: outcome where
  "ex_grade_missing =
     handle_text_answer (\<lambda>x. x)
       (Parsed (Obj \<lparr>v_is_correct = None, v_feedback = Some (Fb_classifier ''ok'')\<rparr>))
       1000 1001 ex_db 501 ''I eat apple''"

definition ex_db_mixed :: db where
  "ex_db_mixed = ex_db\<lparr>task_history := [ex_answered, ex_pending\<lparr>t_id := 2\<rparr>]\<rparr>"

definition ex_grade_mixed :: outcome where
  "ex_grade_mixed =
     handle_text_answer (\<lambda>x. x)
       (Parsed (Obj \<lparr>v_is_correct = Some True, v_feedback = Some (Fb_classifier ''Good'')\<rparr>))
       1000 1001 ex_db_mixed 501 ''I eat an apple''"

lemmas ex_defs = ex_user_def ex_words_def ex_progress_def ex_fresh_def ex_later_def
  ex_translation_def ex_choice_def ex_pending_def ex_answered_def ex_choice_task_def
  ex_db_def ex_db_choice_def


section \<open>The interval table\<close>

lemma get_review_interval_bands:
  "get_review_interval k =
     (if 0 \<le> k \<and> k \<le> 20 then 1 / 2
      else if 21 \<le> k \<and> k \<le> 50 then 4
      else if 51 \<le> k \<and> k \<le> 70 then 24
      else if 71 \<le> k \<and> k \<le> 89 then 72
      else 168)"
  by (simp add: get_review_interval_def REVIEW_INTERVALS_def)

text \<open>
  C8. \<^verbatim>\<open>get_review_interval\<close> never decreases as the knowledge score grows from 0 to
  100. A score from 0 to 20 gives half an hour (30 minutes), from 21 to 50 four hours, from
  51 to 70 24 hours, from 71 to 89 72 hours, from 90 to 100 168 hours, and a score outside
  0 to 100 falls back to 168 hours, the longest interval.
\<close>

theorem review_interval_monotone_bands:
  "(0 \<le> s1 \<and> s1 \<le> s2 \<and> s2 \<le> 100 \<longrightarrow> get_review_interval s1 \<le> get_review_interval s2)
   \<and> (0 \<le> k \<and> k \<le> 20 \<longrightarrow>
         get_review_interval k = 1 / 2
         \<and> timedelta_hours (get_review_interval k) = timedelta_minutes 30)
   \<and> (21 \<le> k \<and> k \<le> 50 \<longrightarrow> get_review_interval k = 4)
   \<and> (51 \<le> k \<and> k \<le> 70 \<longrightarrow> get_review_interval k = 24)
   \<and> (71 \<le> k \<and> k \<le> 89 \<longrightarrow> get_review_interval k = 72)
   \<and> (90 \<le> k \<and> k \<le> 100 \<longrightarrow> get_review_interval k = 168)
   \<and> (k < 0 \<or> 100 < k \<longrightarrow> get_review_interval k = 168)
   \<and> get_review_interval k \<le> 168"
  by (simp add: get_review_interval_bands timedelta_hours_def timedelta_minutes_def)

theorem review_interval_monotone_bands_witness:
  "get_review_interval 20 \<le> get_review_interval 21
   \<and> get_review_interval 15 = 1 / 2
   \<and> timedelta_hours (get_review_interval 15) = timedelta_minutes 30
   \<and> get_review_interval 50 = 4
   \<and> get_review_interval 51 = 24
   \<and> get_review_interval 89 = 72
   \<and> get_review_interval 100 = 168
   \<and> get_review_interval 101 = 168
   \<and> get_review_interval (- 1) = 168"
  using review_interval_monotone_bands [of 20 21 15]
    review_interval_monotone_bands [of 0 0 50]
    review_interval_monotone_bands [of 0 0 51]
    review_interval_monotone_bands [of 0 0 89]
    review_interval_monotone_bands [of 0 0 100]
    review_interval_monotone_bands [of 0 0 101]
    review_interval_monotone_bands [of 0 0 "- 1"]
  by simp


section \<open>The review selector\<close>

lemma spec_outranks_key: "spec_outranks p q \<longleftrightarrow> review_key p < review_key q"
  by (auto simp: spec_outranks_def review_key_def)

lemma head_of_sorted_least:
  assumes "take n (sort_key f xs) = r # rest" and "q \<in> set xs"
  shows "f r \<le> f q"
proof -
  obtain ys where ys: "sort_key f xs = r # ys"
    using assms(1) by (cases "sort_key f xs") (auto simp: take_Cons' split: if_splits)
  have "sorted (map f (sort_key f xs))" by (rule sorted_sort_key)
  with ys have "\<forall>y\<in>set ys. f r \<le> f y" by simp
  moreover have "q \<in> set (r # ys)" using assms(2) ys by (metis set_sort)
  ultimately show ?thesis by auto
qed

lemma review_rows_due:
  assumes "r \<in> set (get_words_for_review s uid limit now)"
  shows "r \<in> set (user_word_progress s) \<and> is_due uid now r"
proof -
  have "r \<in> set (sort_key review_key (filter (is_due uid now) (user_word_progress s)))"
    using assms unfolding get_words_for_review_def by (rule in_set_takeD)
  then show ?thesis by simp
qed

lemma review_head_top:
  assumes "get_words_for_review s uid limit now = r # rest"
    and "q \<in> set (user_word_progress s)" and "is_due uid now q"
  shows "\<not> spec_outranks q r"
proof -
  let ?due = "filter (is_due uid now) (user_word_progress s)"
  have "q \<in> set ?due" using assms(2,3) by simp
  moreover have "take limit (sort_key review_key ?due) = r # rest"
    using assms(1) by (simp only: get_words_for_review_def)
  ultimately have "review_key r \<le> review_key q"
    using head_of_sorted_least [of limit review_key ?due r rest q] by simp
  then show ?thesis by (simp add: spec_outranks_key not_less)
qed

lemma review_empty_iff:
  assumes "0 < limit"
  shows "get_words_for_review s uid limit now = [] \<longleftrightarrow>
     (\<forall>p\<in>set (user_word_progress s). \<not> is_due uid now p)"
proof -
  let ?due = "filter (is_due uid now) (user_word_progress s)"
  have "get_words_for_review s uid limit now = [] \<longleftrightarrow> sort_key review_key ?due = []"
    using assms by (simp add: get_words_for_review_def take_eq_Nil)
  also have "\<dots> \<longleftrightarrow> ?due = []"
    using length_sort [of review_key ?due] by (simp only: length_0_conv [symmetric])
  also have "\<dots> \<longleftrightarrow> (\<forall>p\<in>set (user_word_progress s). \<not> is_due uid now p)"
    by (simp add: filter_empty_conv)
  finally show ?thesis .
qed

text \<open>
  C2. Every row \<^verbatim>\<open>get_words_for_review\<close> returns is a row of the learner that is due
  (\<^verbatim>\<open>next_review_at <= now\<close>). The first row it returns, which is the one the tick takes,
  is outranked by no due row of the learner in the priority of the specification: never
  reviewed before reviewed, then the lower knowledge score, then the earlier due time. With
  a positive limit it returns no row exactly when no row of the learner is due, and it
  never returns more rows than the limit.
\<close>

theorem selector_returns_top_due_row:
  "(\<forall>r\<in>set (get_words_for_review s uid limit now).
       r \<in> set (user_word_progress s) \<and> p_user_id r = uid \<and> p_next_review_at r \<le> now)
   \<and> (\<forall>r rest. get_words_for_review s uid limit now = r # rest \<longrightarrow>
         (\<forall>q\<in>set (user_word_progress s).
             p_user_id q = uid \<and> p_next_review_at q \<le> now \<longrightarrow> \<not> spec_outranks q r))
   \<and> (0 < limit \<longrightarrow>
         (get_words_for_review s uid limit now = [] \<longleftrightarrow>
            (\<forall>p\<in>set (user_word_progress s).
                \<not> (p_user_id p = uid \<and> p_next_review_at p \<le> now))))
   \<and> length (get_words_for_review s uid limit now) \<le> limit"
proof (intro conjI)
  show "\<forall>r\<in>set (get_words_for_review s uid limit now).
       r \<in> set (user_word_progress s) \<and> p_user_id r = uid \<and> p_next_review_at r \<le> now"
    using review_rows_due [of _ s uid limit now] by (simp add: is_due_def)
  show "\<forall>r rest. get_words_for_review s uid limit now = r # rest \<longrightarrow>
         (\<forall>q\<in>set (user_word_progress s).
             p_user_id q = uid \<and> p_next_review_at q \<le> now \<longrightarrow> \<not> spec_outranks q r)"
    using review_head_top [of s uid limit now] by (simp add: is_due_def)
  show "0 < limit \<longrightarrow>
         (get_words_for_review s uid limit now = [] \<longleftrightarrow>
            (\<forall>p\<in>set (user_word_progress s).
                \<not> (p_user_id p = uid \<and> p_next_review_at p \<le> now)))"
    using review_empty_iff [of limit s uid now] by (simp add: is_due_def)
  show "length (get_words_for_review s uid limit now) \<le> limit"
    by (simp add: get_words_for_review_def)
qed

theorem selector_returns_top_due_row_witness:
  "get_words_for_review ex_db 1 1 100 = [ex_fresh]
   \<and> p_user_id ex_fresh = 1 \<and> p_next_review_at ex_fresh \<le> 100
   \<and> \<not> spec_outranks ex_progress ex_fresh
   \<and> get_words_for_review ex_db 1 1 100 \<noteq> []
   \<and> length (get_words_for_review ex_db 1 1 100) \<le> 1"
proof -
  have e: "get_words_for_review ex_db 1 1 100 = [ex_fresh]"
    by (simp add: get_words_for_review_def is_due_def review_key_def ex_defs)
  have m: "ex_progress \<in> set (user_word_progress ex_db)"
    by (simp add: ex_db_def)
  have d: "p_user_id ex_progress = 1 \<and> p_next_review_at ex_progress \<le> 100"
    by (simp add: ex_progress_def)
  have l: "(0::nat) < 1" by simp
  from selector_returns_top_due_row [of ex_db 1 1 100] e m d l show ?thesis
    by auto
qed


section \<open>The mastery model\<close>

lemma find_map_update:
  assumes "find (\<lambda>x. f x = k) xs = Some x" and "f y = k"
  shows "find (\<lambda>x. f x = k) (map (\<lambda>z. if f z = k then y else z) xs) = Some y"
  using assms by (induction xs) (auto split: if_splits)

lemma reviewed_fields:
  "p_total_answers_count (reviewed p ok t1 t2) = p_total_answers_count p + 1"
  "p_correct_answers_count (reviewed p ok t1 t2) =
     p_correct_answers_count p + (if truthy ok then 1 else 0)"
  "p_knowledge_percent (reviewed p ok t1 t2) =
     (if truthy ok then min 100 (p_knowledge_percent p + 15)
      else max 0 (p_knowledge_percent p - 10))"
  "p_last_reviewed_at (reviewed p ok t1 t2) = Some t1"
  "p_next_review_at (reviewed p ok t1 t2) =
     t2 + timedelta_hours (get_review_interval (p_knowledge_percent (reviewed p ok t1 t2)))"
  "p_id (reviewed p ok t1 t2) = p_id p"
  "p_user_id (reviewed p ok t1 t2) = p_user_id p"
  "p_word_id (reviewed p ok t1 t2) = p_word_id p"
  by (simp_all add: reviewed_def Let_def MAX_KNOWLEDGE_def MIN_KNOWLEDGE_def
        CORRECT_ANSWER_BOOST_def INCORRECT_ANSWER_PENALTY_def)

lemma update_word_progress_found:
  assumes "find (\<lambda>q. p_id q = progress_id) (user_word_progress s) = Some p"
  shows "update_word_progress s progress_id ok t1 t2 =
           Some (s\<lparr>user_word_progress :=
                     map (\<lambda>q. if p_id q = progress_id then reviewed p ok t1 t2 else q)
                         (user_word_progress s)\<rparr>)"
    and "find (\<lambda>q. p_id q = progress_id)
           (map (\<lambda>q. if p_id q = progress_id then reviewed p ok t1 t2 else q)
                (user_word_progress s)) = Some (reviewed p ok t1 t2)"
proof -
  show "update_word_progress s progress_id ok t1 t2 =
           Some (s\<lparr>user_word_progress :=
                     map (\<lambda>q. if p_id q = progress_id then reviewed p ok t1 t2 else q)
                         (user_word_progress s)\<rparr>)"
    using assms by (simp add: update_word_progress_def)
  have "p_id p = progress_id"
    using assms by (auto simp: find_Some_iff)
  then have "p_id (reviewed p ok t1 t2) = progress_id"
    by (simp add: reviewed_fields)
  then show "find (\<lambda>q. p_id q = progress_id)
           (map (\<lambda>q. if p_id q = progress_id then reviewed p ok t1 t2 else q)
                (user_word_progress s)) = Some (reviewed p ok t1 t2)"
    using find_map_update [OF assms] by simp
qed

text \<open>
  C3. For a progress row whose knowledge score lies in 0 to 100 and for either outcome,
  \<^verbatim>\<open>update_word_progress\<close> commits a row with one more total attempt, one more correct
  attempt exactly when the outcome is correct, the score plus 15 on a correct outcome and
  minus 10 on an incorrect one clamped into 0 to 100, the last review time set, and the due
  time set to the clock reading plus the interval of the new score.
\<close>

theorem update_word_progress_applies_outcome:
  assumes "find (\<lambda>q. p_id q = progress_id) (user_word_progress s) = Some p"
    and "0 \<le> p_knowledge_percent p" and "p_knowledge_percent p \<le> 100"
  shows "\<exists>s' p'. update_word_progress s progress_id (Some correct) t_reviewed t_next = Some s'
           \<and> find (\<lambda>q. p_id q = progress_id) (user_word_progress s') = Some p'
           \<and> p_total_answers_count p' = p_total_answers_count p + 1
           \<and> p_correct_answers_count p' = p_correct_answers_count p + (if correct then 1 else 0)
           \<and> p_knowledge_percent p' =
                max 0 (min 100 (p_knowledge_percent p + (if correct then 15 else - 10)))
           \<and> 0 \<le> p_knowledge_percent p' \<and> p_knowledge_percent p' \<le> 100
           \<and> p_last_reviewed_at p' = Some t_reviewed
           \<and> p_next_review_at p' =
                t_next + timedelta_hours (get_review_interval (p_knowledge_percent p'))"
proof -
  let ?p' = "reviewed p (Some correct) t_reviewed t_next"
  let ?s' = "s\<lparr>user_word_progress :=
                 map (\<lambda>q. if p_id q = progress_id then ?p' else q) (user_word_progress s)\<rparr>"
  have upd: "update_word_progress s progress_id (Some correct) t_reviewed t_next = Some ?s'"
    using assms(1) by (rule update_word_progress_found(1))
  have fnd: "find (\<lambda>q. p_id q = progress_id) (user_word_progress ?s') = Some ?p'"
    using update_word_progress_found(2) [OF assms(1)] by simp
  have k: "p_knowledge_percent ?p' =
             max 0 (min 100 (p_knowledge_percent p + (if correct then 15 else - 10)))"
    using assms(2,3) by (simp add: reviewed_fields truthy_def)
  have "p_total_answers_count ?p' = p_total_answers_count p + 1"
    by (simp add: reviewed_fields)
  moreover have "p_correct_answers_count ?p' =
      p_correct_answers_count p + (if correct then 1 else 0)"
    by (simp add: reviewed_fields truthy_def)
  moreover have "0 \<le> p_knowledge_percent ?p' \<and> p_knowledge_percent ?p' \<le> 100"
    by (simp add: k)
  moreover have "p_last_reviewed_at ?p' = Some t_reviewed"
    by (simp add: reviewed_fields)
  moreover have "p_next_review_at ?p' =
      t_next + timedelta_hours (get_review_interval (p_knowledge_percent ?p'))"
    by (simp add: reviewed_fields)
  ultimately show ?thesis
    using upd fnd k by blast
qed

theorem update_word_progress_applies_outcome_witness:
  "\<exists>s' p'. update_word_progress ex_db 1 (Some True) 1000 1001 = Some s'
      \<and> find (\<lambda>q. p_id q = 1) (user_word_progress s') = Some p'
      \<and> p_total_answers_count p' = 5 \<and> p_correct_answers_count p' = 4
      \<and> p_knowledge_percent p' = 55
      \<and> p_last_reviewed_at p' = Some 1000
      \<and> p_next_review_at p' = 1001 + timedelta_hours (get_review_interval 55)"
proof -
  have f: "find (\<lambda>q. p_id q = 1) (user_word_progress ex_db) = Some ex_progress"
    by (simp add: ex_defs)
  have b: "0 \<le> p_knowledge_percent ex_progress" "p_knowledge_percent ex_progress \<le> 100"
    by (simp_all add: ex_defs)
  have v: "p_total_answers_count ex_progress = 4" "p_correct_answers_count ex_progress = 3"
    "p_knowledge_percent ex_progress = 40"
    by (simp_all add: ex_defs)
  from update_word_progress_applies_outcome [OF f b, of True 1000 1001]
  obtain s' p' where "update_word_progress ex_db 1 (Some True) 1000 1001 = Some s'"
    and "find (\<lambda>q. p_id q = 1) (user_word_progress s') = Some p'"
    and "p_total_answers_count p' = 5" and "p_correct_answers_count p' = 4"
    and "p_knowledge_percent p' = 55" and "p_last_reviewed_at p' = Some 1000"
    and "p_next_review_at p' =
           1001 + timedelta_hours (get_review_interval (p_knowledge_percent p'))"
    unfolding v by auto
  then show ?thesis by simp
qed

section \<open>New progress rows\<close>

text \<open>
  C9. The row \<^verbatim>\<open>create_user_word_progress\<close> adds has knowledge score 0, no last review
  time, both attempt counters 0 and the clock reading of its creation as due time. From
  that moment on it is due: the selector returns a row for the learner, and returns this
  very row when no older row of the learner is due.
\<close>

theorem new_progress_row_is_due:
  "(case create_user_word_progress s uid wid now of (s', p) \<Rightarrow>
      user_word_progress s' = user_word_progress s @ [p]
      \<and> p_user_id p = uid \<and> p_word_id p = wid
      \<and> p_knowledge_percent p = 0 \<and> p_last_reviewed_at p = None
      \<and> p_correct_answers_count p = 0 \<and> p_total_answers_count p = 0
      \<and> p_next_review_at p = now
      \<and> (\<forall>now'. now \<le> now' \<longrightarrow>
            is_due uid now' p
            \<and> get_words_for_review s' uid 1 now' \<noteq> []
            \<and> ((\<forall>q\<in>set (user_word_progress s). \<not> is_due uid now' q) \<longrightarrow>
                  get_words_for_review s' uid 1 now' = [p])))"
proof -
  obtain s' p where c: "create_user_word_progress s uid wid now = (s', p)"
    by (cases "create_user_word_progress s uid wid now")
  then have rows: "user_word_progress s' = user_word_progress s @ [p]"
    and flds: "p_user_id p = uid" "p_word_id p = wid" "p_knowledge_percent p = 0"
      "p_last_reviewed_at p = None" "p_correct_answers_count p = 0"
      "p_total_answers_count p = 0" "p_next_review_at p = now"
    by (auto simp: create_user_word_progress_def Let_def)
  have later: "is_due uid now' p \<and> get_words_for_review s' uid 1 now' \<noteq> []
      \<and> ((\<forall>q\<in>set (user_word_progress s). \<not> is_due uid now' q) \<longrightarrow>
            get_words_for_review s' uid 1 now' = [p])" if "now \<le> now'" for now'
  proof (intro conjI impI)
    show d: "is_due uid now' p"
      using that flds by (simp add: is_due_def)
    have "filter (is_due uid now') (user_word_progress s') \<noteq> []"
      using d rows by (simp add: filter_empty_conv)
    then have "sort_key review_key (filter (is_due uid now') (user_word_progress s')) \<noteq> []"
      using length_sort [of review_key "filter (is_due uid now') (user_word_progress s')"]
      by (simp only: length_0_conv [symmetric]) simp
    then show "get_words_for_review s' uid 1 now' \<noteq> []"
      by (simp add: get_words_for_review_def take_eq_Nil)
    assume "\<forall>q\<in>set (user_word_progress s). \<not> is_due uid now' q"
    then have "filter (is_due uid now') (user_word_progress s) = []"
      by (simp add: filter_empty_conv)
    then have "filter (is_due uid now') (user_word_progress s') = [p]"
      using d rows by simp
    then show "get_words_for_review s' uid 1 now' = [p]"
      by (simp add: get_words_for_review_def)
  qed
  show ?thesis
    unfolding c using rows flds later by simp
qed

theorem new_progress_row_is_due_witness:
  "(case create_user_word_progress ex_db 2 3 300 of (s', p) \<Rightarrow>
      p_knowledge_percent p = 0 \<and> p_last_reviewed_at p = None
      \<and> p_correct_answers_count p = 0 \<and> p_total_answers_count p = 0
      \<and> p_next_review_at p = 300
      \<and> is_due 2 300 p
      \<and> get_words_for_review s' 2 1 300 = [p])"
proof -
  have n: "\<forall>q\<in>set (user_word_progress ex_db). \<not> is_due 2 300 q"
    by (simp add: ex_defs is_due_def)
  have l: "(300::int) \<le> 300" by simp
  from new_progress_row_is_due [of ex_db 2 3 300] n l show ?thesis
    by (auto split: prod.splits)
qed


section \<open>The tick\<close>

lemma drawn_task_type: "task_types ! (rnd mod length task_types) \<in> set task_types"
  by (rule nth_mem) (simp add: task_types_def)

lemma tick_past_guards:
  assumes "get_user_by_telegram_id s tg = Some u" and "u_is_active u"
    and "\<forall>until. u_do_not_disturb_until u = Some until \<longrightarrow> until \<le> t_dnd"
    and "get_words_for_review s uid 1 t_query = p # rest"
    and "find (\<lambda>w. w_id w = p_word_id p) (words s) = Some w"
  shows "send_task_to_user rnd (Parsed j) t_dnd t_query t_insert s uid tg =
           except_send Generation_failed
             (case create_task_history s uid (w_id w)
                     (task_types ! (rnd mod length task_types)) j t_insert of
                (s1, row) \<Rightarrow>
                  (case send_task_message j (t_id row) of
                     Inl e \<Rightarrow> \<lparr>commits = [s1], sent = [], raised = Some e\<rparr>
                   | Inr msgs \<Rightarrow> \<lparr>commits = [s1], sent = msgs, raised = None\<rparr>))"
proof -
  have g: "\<not> (case u_do_not_disturb_until u of None \<Rightarrow> False | Some until \<Rightarrow> t_dnd < until)"
    using assms(3) by (cases "u_do_not_disturb_until u") (auto simp: not_less)
  show ?thesis
    using assms(1,2,4,5) g drawn_task_type [of rnd]
    by (simp add: send_task_to_user_def issue_attempt_def generate_task_def ai_call_def Let_def)
qed

lemma create_task_history_result:
  "create_task_history s uid wid ty j t_insert =
     (s\<lparr>task_history := task_history s @
          [\<lparr>t_id = next_id (map t_id (task_history s)), t_user_id = uid, t_word_id = wid,
            t_task_type = ty, t_task_content = j, t_user_answer = None, t_is_correct = None,
            t_ai_feedback = None, t_created_at = t_insert\<rparr>]\<rparr>,
      \<lparr>t_id = next_id (map t_id (task_history s)), t_user_id = uid, t_word_id = wid,
            t_task_type = ty, t_task_content = j, t_user_answer = None, t_is_correct = None,
            t_ai_feedback = None, t_created_at = t_insert\<rparr>)"
  by (simp add: create_task_history_def Let_def)

lemma find_map_preserving:
  assumes "\<And>x. P (f x) = P x"
  shows "find P (map f xs) = map_option f (find P xs)"
  using assms by (induction xs) auto

lemma user_after_set_do_not_disturb:
  assumes "get_user_by_telegram_id s tg = Some u"
  shows "get_user_by_telegram_id (set_do_not_disturb s (u_id u) minutes now) tg =
           Some (u\<lparr>u_do_not_disturb_until := Some (now + timedelta_minutes minutes)\<rparr>)"
proof -
  let ?f = "\<lambda>x. if u_id x = u_id u
                 then x\<lparr>u_do_not_disturb_until := Some (now + timedelta_minutes minutes)\<rparr>
                 else x"
  have "find (\<lambda>x. u_telegram_id x = tg) (map ?f (users s)) =
          map_option ?f (find (\<lambda>x. u_telegram_id x = tg) (users s))"
    by (rule find_map_preserving) simp
  then show ?thesis
    using assms by (simp add: get_user_by_telegram_id_def set_do_not_disturb_def Let_def)
qed

text \<open>
  C7. A tick whose clock reading is earlier than the learner's
  \<^verbatim>\<open>do_not_disturb_until\<close> does nothing: no commit, no message (so no all-caught-up
  notice either) and no exception. This holds in particular after
  \<^verbatim>\<open>set_do_not_disturb\<close>, until the minutes have passed. A tick of an active learner
  at or after that time issues a question as usual: with a due row whose word exists and an
  answer of the generator it raises nothing and commits once, the database with one new
  task row appended (for this learner and that word, with the generated content, no answer,
  no outcome and no feedback), so the learner's pending tasks are the earlier ones and the
  new one; it sends what \<^verbatim>\<open>_send_task_message\<close> sends for the content, and for content
  of one of the four task types that is exactly one question message.
\<close>

theorem suppressed_tick_is_silent:
  "(get_user_by_telegram_id s tg = Some u \<and> u_do_not_disturb_until u = Some until
      \<and> t_dnd < until \<longrightarrow>
      send_task_to_user rnd ai t_dnd t_query t_insert s uid tg =
        \<lparr>commits = [], sent = [], raised = None\<rparr>)
   \<and> (get_user_by_telegram_id s tg = Some u \<and> t_dnd < now + timedelta_minutes minutes \<longrightarrow>
        send_task_to_user rnd ai t_dnd t_query t_insert
            (set_do_not_disturb s (u_id u) minutes now) uid tg =
          \<lparr>commits = [], sent = [], raised = None\<rparr>)
   \<and> (get_user_by_telegram_id s tg = Some u \<and> u_is_active u
        \<and> u_do_not_disturb_until u = Some until \<and> until \<le> t_dnd
        \<and> get_words_for_review s uid 1 t_query = p # rest
        \<and> find (\<lambda>w. w_id w = p_word_id p) (words s) = Some w
        \<and> send_task_message j (next_id (map t_id (task_history s))) = Inr msgs \<longrightarrow>
        send_task_to_user rnd (Parsed j) t_dnd t_query t_insert s uid tg =
          \<lparr>commits =
             [s\<lparr>task_history := task_history s @
                  [\<lparr>t_id = next_id (map t_id (task_history s)), t_user_id = uid,
                    t_word_id = w_id w,
                    t_task_type = task_types ! (rnd mod length task_types),
                    t_task_content = j, t_user_answer = None, t_is_correct = None,
                    t_ai_feedback = None, t_created_at = t_insert\<rparr>]\<rparr>],
           sent = msgs, raised = None\<rparr>
        \<and> commits (send_task_to_user rnd (Parsed j) t_dnd t_query t_insert s uid tg) =
            [fst (create_task_history s uid (w_id w)
                    (task_types ! (rnd mod length task_types)) j t_insert)]
        \<and> pending_tasks
             (final_db s (send_task_to_user rnd (Parsed j) t_dnd t_query t_insert s uid tg))
             uid =
            pending_tasks s uid @
              [\<lparr>t_id = next_id (map t_id (task_history s)), t_user_id = uid,
                t_word_id = w_id w,
                t_task_type = task_types ! (rnd mod length task_types),
                t_task_content = j, t_user_answer = None, t_is_correct = None,
                t_ai_feedback = None, t_created_at = t_insert\<rparr>])
   \<and> (td_task_type td = Some ty \<and> ty \<in> set task_types \<longrightarrow>
        send_task_message (Obj td) task_id =
          Inr (if ty = ''translation_to_en'' then [Translate_to_en (td_sentence_ru td)]
               else if ty = ''translation_to_ru'' then [Translate_to_ru (td_sentence_en td)]
               else [Multiple_choice (td_question td)
                       (get_multiple_choice_keyboard (option_list (td_options td)) task_id)]))"
proof (intro conjI impI)
  assume "get_user_by_telegram_id s tg = Some u \<and> u_do_not_disturb_until u = Some until
      \<and> t_dnd < until"
  then show "send_task_to_user rnd ai t_dnd t_query t_insert s uid tg =
        \<lparr>commits = [], sent = [], raised = None\<rparr>"
    by (simp add: send_task_to_user_def)
next
  assume a: "get_user_by_telegram_id s tg = Some u \<and> t_dnd < now + timedelta_minutes minutes"
  then have "get_user_by_telegram_id (set_do_not_disturb s (u_id u) minutes now) tg =
           Some (u\<lparr>u_do_not_disturb_until := Some (now + timedelta_minutes minutes)\<rparr>)"
    by (simp add: user_after_set_do_not_disturb)
  then show "send_task_to_user rnd ai t_dnd t_query t_insert
            (set_do_not_disturb s (u_id u) minutes now) uid tg =
          \<lparr>commits = [], sent = [], raised = None\<rparr>"
    using a by (simp add: send_task_to_user_def)
next
  assume a: "get_user_by_telegram_id s tg = Some u \<and> u_is_active u
        \<and> u_do_not_disturb_until u = Some until \<and> until \<le> t_dnd
        \<and> get_words_for_review s uid 1 t_query = p # rest
        \<and> find (\<lambda>w. w_id w = p_word_id p) (words s) = Some w
        \<and> send_task_message j (next_id (map t_id (task_history s))) = Inr msgs"
  let ?new = "\<lparr>t_id = next_id (map t_id (task_history s)), t_user_id = uid,
                t_word_id = w_id w,
                t_task_type = task_types ! (rnd mod length task_types),
                t_task_content = j, t_user_answer = None, t_is_correct = None,
                t_ai_feedback = None, t_created_at = t_insert\<rparr>"
  let ?r = "send_task_to_user rnd (Parsed j) t_dnd t_query t_insert s uid tg"
  from a have "\<forall>x. u_do_not_disturb_until u = Some x \<longrightarrow> x \<le> t_dnd"
    by simp
  with a have "?r =
           except_send Generation_failed
             (case create_task_history s uid (w_id w)
                     (task_types ! (rnd mod length task_types)) j t_insert of
                (s1, row) \<Rightarrow>
                  (case send_task_message j (t_id row) of
                     Inl e \<Rightarrow> \<lparr>commits = [s1], sent = [], raised = Some e\<rparr>
                   | Inr msgs \<Rightarrow> \<lparr>commits = [s1], sent = msgs, raised = None\<rparr>))"
    using tick_past_guards [of s tg u t_dnd uid t_query p rest w rnd j t_insert] by blast
  then have r: "?r = \<lparr>commits = [s\<lparr>task_history := task_history s @ [?new]\<rparr>],
                       sent = msgs, raised = None\<rparr>"
    using a by (simp add: create_task_history_result except_send_def)
  show "?r = \<lparr>commits = [s\<lparr>task_history := task_history s @ [?new]\<rparr>],
               sent = msgs, raised = None\<rparr>"
    by (rule r)
  show "commits ?r = [fst (create_task_history s uid (w_id w)
                            (task_types ! (rnd mod length task_types)) j t_insert)]"
    unfolding r by (simp add: create_task_history_result)
  show "pending_tasks (final_db s ?r) uid = pending_tasks s uid @ [?new]"
    unfolding r by (simp add: final_db_def pending_tasks_def)
next
  assume "td_task_type td = Some ty \<and> ty \<in> set task_types"
  then show "send_task_message (Obj td) task_id =
          Inr (if ty = ''translation_to_en'' then [Translate_to_en (td_sentence_ru td)]
               else if ty = ''translation_to_ru'' then [Translate_to_ru (td_sentence_en td)]
               else [Multiple_choice (td_question td)
                       (get_multiple_choice_keyboard (option_list (td_options td)) task_id)])"
    by (auto simp: send_task_message_def task_types_def)
qed

lemma ex_db_quiet_user:
  "get_user_by_telegram_id ex_db_quiet 501 =
     Some (ex_user\<lparr>u_do_not_disturb_until := Some 3600000000\<rparr>)"
  by (simp add: ex_db_quiet_def set_do_not_disturb_def get_user_by_telegram_id_def
      timedelta_minutes_def ex_defs)

lemma ex_db_quiet_review:
  "get_words_for_review ex_db_quiet 1 1 4200000000 = [ex_fresh]"
  by (simp add: ex_db_quiet_def set_do_not_disturb_def get_words_for_review_def is_due_def
      review_key_def ex_defs)

lemma ex_db_quiet_tasks:
  "task_history ex_db_quiet = [ex_pending]"
  "pending_tasks ex_db_quiet 1 = [ex_pending]"
  "next_id (map t_id (task_history ex_db_quiet)) = 2"
  by (simp_all add: ex_db_quiet_def set_do_not_disturb_def pending_tasks_def next_id_def
      ex_defs)

theorem suppressed_tick_is_silent_witness:
  "send_task_to_user 0 (Parsed (Obj ex_choice)) 600000000 600000000 600000000
       ex_db_quiet 1 501 = \<lparr>commits = [], sent = [], raised = None\<rparr>
   \<and> send_task_to_user 0 (Parsed (Obj ex_choice)) 600000000 600000000 600000000
       (set_do_not_disturb ex_db (u_id ex_user) 60 0) 1 501 =
         \<lparr>commits = [], sent = [], raised = None\<rparr>
   \<and> send_task_to_user 2 (Parsed (Obj ex_choice)) 4200000000 4200000000 4200000000
       ex_db_quiet 1 501 =
         \<lparr>commits =
            [ex_db_quiet\<lparr>task_history :=
               [ex_pending,
                \<lparr>t_id = 2, t_user_id = 1, t_word_id = 2,
                 t_task_type = ''multiple_choice_en_to_ru'', t_task_content = Obj ex_choice,
                 t_user_answer = None, t_is_correct = None, t_ai_feedback = None,
                 t_created_at = 4200000000\<rparr>]\<rparr>],
          sent = [Multiple_choice (Some ''book?'')
                    [(''kniga'', 2, 0), (''kot'', 2, 1), (''dom'', 2, 2), (''les'', 2, 3)]],
          raised = None\<rparr>
   \<and> pending_tasks
        (final_db ex_db_quiet
           (send_task_to_user 2 (Parsed (Obj ex_choice)) 4200000000 4200000000 4200000000
              ex_db_quiet 1 501)) 1 =
       [ex_pending,
        \<lparr>t_id = 2, t_user_id = 1, t_word_id = 2,
         t_task_type = ''multiple_choice_en_to_ru'', t_task_content = Obj ex_choice,
         t_user_answer = None, t_is_correct = None, t_ai_feedback = None,
         t_created_at = 4200000000\<rparr>]
   \<and> send_task_message (Obj ex_choice) 2 =
       Inr [Multiple_choice (Some ''book?'')
              [(''kniga'', 2, 0), (''kot'', 2, 1), (''dom'', 2, 2), (''les'', 2, 3)]]"
proof -
  have u0: "get_user_by_telegram_id ex_db 501 = Some ex_user"
    by (simp add: get_user_by_telegram_id_def ex_defs)
  have t0: "(600000000::int) < 0 + timedelta_minutes 60"
    by (simp add: timedelta_minutes_def)
  have kb: "get_multiple_choice_keyboard (option_list (td_options ex_choice)) 2 =
              [(''kniga'', 2, 0), (''kot'', 2, 1), (''dom'', 2, 2), (''les'', 2, 3)]"
    by (simp add: get_multiple_choice_keyboard_def option_list_def enumerate_eq_zip ex_defs)
  have ty: "td_task_type ex_choice = Some ''multiple_choice_en_to_ru''
            \<and> ''multiple_choice_en_to_ru'' \<in> set task_types"
    by (simp add: task_types_def ex_defs)
  have q: "td_question ex_choice = Some ''book?''"
    by (simp add: ex_defs)
  have c4: "send_task_message (Obj ex_choice) 2 =
       Inr [Multiple_choice (Some ''book?'')
              [(''kniga'', 2, 0), (''kot'', 2, 1), (''dom'', 2, 2), (''les'', 2, 3)]]"
    using suppressed_tick_is_silent
            [where td = ex_choice and ty = "''multiple_choice_en_to_ru''" and task_id = 2]
          ty
    by (simp add: kb q)
  have h1: "get_user_by_telegram_id ex_db_quiet 501 =
              Some (ex_user\<lparr>u_do_not_disturb_until := Some 3600000000\<rparr>)
            \<and> u_do_not_disturb_until (ex_user\<lparr>u_do_not_disturb_until := Some 3600000000\<rparr>) =
                Some 3600000000
            \<and> (600000000::int) < 3600000000"
    by (simp add: ex_db_quiet_user)
  have h3: "get_user_by_telegram_id ex_db_quiet 501 =
              Some (ex_user\<lparr>u_do_not_disturb_until := Some 3600000000\<rparr>)
            \<and> u_is_active (ex_user\<lparr>u_do_not_disturb_until := Some 3600000000\<rparr>)
            \<and> u_do_not_disturb_until (ex_user\<lparr>u_do_not_disturb_until := Some 3600000000\<rparr>) =
                Some 3600000000
            \<and> (3600000000::int) \<le> 4200000000
            \<and> get_words_for_review ex_db_quiet 1 1 4200000000 = ex_fresh # []
            \<and> find (\<lambda>w. w_id w = p_word_id ex_fresh) (words ex_db_quiet) =
                Some \<lparr>w_id = 2, w_word_en = ''book'', w_word_ru = ''kniga''\<rparr>
            \<and> send_task_message (Obj ex_choice) (next_id (map t_id (task_history ex_db_quiet))) =
                Inr [Multiple_choice (Some ''book?'')
                    [(''kniga'', 2, 0), (''kot'', 2, 1), (''dom'', 2, 2), (''les'', 2, 3)]]"
    apply (intro conjI)
    subgoal by (rule ex_db_quiet_user)
    subgoal by (simp add: ex_defs)
    subgoal by simp
    subgoal by simp
    subgoal by (rule ex_db_quiet_review)
    subgoal by (simp add: ex_db_quiet_def set_do_not_disturb_def ex_defs)
    subgoal by (simp only: ex_db_quiet_tasks(3) c4)
    done
  have tt: "task_types ! (2 mod length task_types) = ''multiple_choice_en_to_ru''"
    by (simp add: task_types_def)
  have nid: "next_id [t_id ex_pending] = 2"
    by (simp add: next_id_def ex_defs)
  from suppressed_tick_is_silent
         [where s = ex_db_quiet and tg = 501
            and u = "ex_user\<lparr>u_do_not_disturb_until := Some 3600000000\<rparr>"
            and until = 3600000000 and t_dnd = 600000000 and rnd = 0
            and ai = "Parsed (Obj ex_choice)" and t_query = 600000000
            and t_insert = 600000000 and uid = 1]
       h1
  have c1: "send_task_to_user 0 (Parsed (Obj ex_choice)) 600000000 600000000 600000000
       ex_db_quiet 1 501 = \<lparr>commits = [], sent = [], raised = None\<rparr>"
    by blast
  from suppressed_tick_is_silent
         [where s = ex_db and tg = 501 and u = ex_user and t_dnd = 600000000 and now = 0
            and minutes = 60 and rnd = 0 and ai = "Parsed (Obj ex_choice)"
            and t_query = 600000000 and t_insert = 600000000 and uid = 1]
       u0 t0
  have c2: "send_task_to_user 0 (Parsed (Obj ex_choice)) 600000000 600000000 600000000
       (set_do_not_disturb ex_db (u_id ex_user) 60 0) 1 501 =
         \<lparr>commits = [], sent = [], raised = None\<rparr>"
    by blast
  note th3 = suppressed_tick_is_silent
         [where s = ex_db_quiet and tg = 501
            and u = "ex_user\<lparr>u_do_not_disturb_until := Some 3600000000\<rparr>"
            and until = 3600000000 and t_dnd = 4200000000 and rnd = 2
            and t_query = 4200000000 and t_insert = 4200000000 and uid = 1
            and p = ex_fresh and rest = "[]"
            and w = "\<lparr>w_id = 2, w_word_en = ''book'', w_word_ru = ''kniga''\<rparr>"
            and j = "Obj ex_choice"
            and msgs = "[Multiple_choice (Some ''book?'')
                    [(''kniga'', 2, 0), (''kot'', 2, 1), (''dom'', 2, 2), (''les'', 2, 3)]]"]
  from th3 h3
  have c3: "send_task_to_user 2 (Parsed (Obj ex_choice)) 4200000000 4200000000 4200000000
       ex_db_quiet 1 501 =
         \<lparr>commits =
            [ex_db_quiet\<lparr>task_history :=
               [ex_pending,
                \<lparr>t_id = 2, t_user_id = 1, t_word_id = 2,
                 t_task_type = ''multiple_choice_en_to_ru'', t_task_content = Obj ex_choice,
                 t_user_answer = None, t_is_correct = None, t_ai_feedback = None,
                 t_created_at = 4200000000\<rparr>]\<rparr>],
          sent = [Multiple_choice (Some ''book?'')
                    [(''kniga'', 2, 0), (''kot'', 2, 1), (''dom'', 2, 2), (''les'', 2, 3)]],
          raised = None\<rparr>"
    unfolding tt by (simp add: ex_db_quiet_tasks nid)
  from th3 h3
  have "pending_tasks
        (final_db ex_db_quiet
           (send_task_to_user 2 (Parsed (Obj ex_choice)) 4200000000 4200000000 4200000000
              ex_db_quiet 1 501)) 1 =
       pending_tasks ex_db_quiet 1 @
        [\<lparr>t_id = next_id (map t_id (task_history ex_db_quiet)), t_user_id = 1,
          t_word_id = w_id \<lparr>w_id = 2, w_word_en = ''book'', w_word_ru = ''kniga''\<rparr>,
          t_task_type = task_types ! (2 mod length task_types),
          t_task_content = Obj ex_choice, t_user_answer = None, t_is_correct = None,
          t_ai_feedback = None, t_created_at = 4200000000\<rparr>]"
    by blast
  then
  have c5: "pending_tasks
        (final_db ex_db_quiet
           (send_task_to_user 2 (Parsed (Obj ex_choice)) 4200000000 4200000000 4200000000
              ex_db_quiet 1 501)) 1 =
       [ex_pending,
        \<lparr>t_id = 2, t_user_id = 1, t_word_id = 2,
         t_task_type = ''multiple_choice_en_to_ru'', t_task_content = Obj ex_choice,
         t_user_answer = None, t_is_correct = None, t_ai_feedback = None,
         t_created_at = 4200000000\<rparr>]"
    by (simp only: tt ex_db_quiet_tasks(2,3) append.simps word.simps)
  from c1 c2 c3 c4 c5 show ?thesis by blast
qed


section \<open>Issuing while a task is pending\<close>

lemma last_pending_is_pending:
  assumes "get_last_pending_task s uid = Some t"
  shows "t \<in> set (pending_tasks s uid)"
proof -
  obtain ts where "sort_key (\<lambda>t. - t_created_at t) (pending_tasks s uid) = t # ts"
    using assms by (auto simp: get_last_pending_task_def split: list.splits)
  then have "t \<in> set (sort_key (\<lambda>t. - t_created_at t) (pending_tasks s uid))"
    by simp
  then show ?thesis by simp
qed

lemma tick_generator_failed:
  assumes "get_user_by_telegram_id s tg = Some u" and "u_is_active u"
    and "\<forall>until. u_do_not_disturb_until u = Some until \<longrightarrow> until \<le> t_dnd"
    and "get_words_for_review s uid 1 t_query = p # rest"
    and "ai = Api_failure \<or> ai = Invalid_json"
  shows "send_task_to_user rnd ai t_dnd t_query t_insert s uid tg =
           \<lparr>commits = [], sent = [Generation_failed], raised = None\<rparr>"
proof -
  have g: "\<not> (case u_do_not_disturb_until u of None \<Rightarrow> False | Some until \<Rightarrow> t_dnd < until)"
    using assms(3) by (cases "u_do_not_disturb_until u") (auto simp: not_less)
  show ?thesis
    using assms(1,2,4,5) g drawn_task_type [of rnd]
    by (auto simp: send_task_to_user_def issue_attempt_def generate_task_def ai_call_def
        Let_def except_send_def split: option.splits)
qed

text \<open>
  C1, the counterexample. The learner of the example has a pending task; the tick raises
  nothing, sends the next question and commits a second pending task beside the first.
\<close>

theorem issue_while_pending_counterexample:
  "pending_tasks ex_db 1 = [ex_pending]
   \<and> raised ex_tick = None
   \<and> sent ex_tick = [Translate_to_en (Some ''Ya em yabloko'')]
   \<and> length (commits ex_tick) = 1
   \<and> pending_tasks (final_db ex_db ex_tick) 1 =
       [ex_pending,
        \<lparr>t_id = 2, t_user_id = 1, t_word_id = 2, t_task_type = ''translation_to_en'',
         t_task_content = Obj ex_translation, t_user_answer = None, t_is_correct = None,
         t_ai_feedback = None, t_created_at = 100\<rparr>]"
proof -
  have u: "get_user_by_telegram_id ex_db 501 = Some ex_user"
    by (simp add: get_user_by_telegram_id_def ex_defs)
  have a: "u_is_active ex_user" "\<forall>until. u_do_not_disturb_until ex_user = Some until \<longrightarrow> until \<le> 100"
    by (simp_all add: ex_defs)
  have r: "get_words_for_review ex_db 1 1 100 = ex_fresh # []"
    by (simp add: get_words_for_review_def is_due_def review_key_def ex_defs)
  have w: "find (\<lambda>w. w_id w = p_word_id ex_fresh) (words ex_db) =
             Some \<lparr>w_id = 2, w_word_en = ''book'', w_word_ru = ''kniga''\<rparr>"
    by (simp add: ex_defs)
  have ty: "task_types ! (0 mod length task_types) = ''translation_to_en''"
    by (simp add: task_types_def)
  have m: "send_task_message (Obj ex_translation) 2 =
             Inr [Translate_to_en (Some ''Ya em yabloko'')]"
    by (simp add: send_task_message_def ex_defs)
  have n: "next_id (map t_id (task_history ex_db)) = 2"
    by (simp add: next_id_def ex_defs)
  have t: "ex_tick =
      \<lparr>commits = [ex_db\<lparr>task_history := task_history ex_db @
          [\<lparr>t_id = 2, t_user_id = 1, t_word_id = 2, t_task_type = ''translation_to_en'',
            t_task_content = Obj ex_translation, t_user_answer = None, t_is_correct = None,
            t_ai_feedback = None, t_created_at = 100\<rparr>]\<rparr>],
       sent = [Translate_to_en (Some ''Ya em yabloko'')], raised = None\<rparr>"
    unfolding ex_tick_def tick_past_guards [OF u a r w] ty create_task_history_result n
    by (simp add: m except_send_def)
  have p: "pending_tasks ex_db 1 = [ex_pending]"
    by (simp add: pending_tasks_def ex_defs)
  show ?thesis
    unfolding t using p by (simp add: final_db_def pending_tasks_def ex_db_def ex_pending_def)
qed

text \<open>
  C1, as amended. A tick does not look at the learner's pending tasks and has no conflict
  error. For an active learner who is not suppressed and has a due row whose word exists,
  while a task is pending: when the generator answers, the tick raises nothing and commits
  once, the database with one new pending task row appended; all earlier rows are as they
  were, so the earlier pending task is still pending beside the new one. When the call of
  the generator fails, nothing is committed and the failure notice is sent.
\<close>

theorem issue_while_pending_appends_task:
  assumes "get_last_pending_task s uid = Some old"
    and "get_user_by_telegram_id s tg = Some u" and "u_is_active u"
    and "\<forall>until. u_do_not_disturb_until u = Some until \<longrightarrow> until \<le> t_dnd"
    and "get_words_for_review s uid 1 t_query = p # rest"
    and "find (\<lambda>w. w_id w = p_word_id p) (words s) = Some w"
  shows "(\<exists>new. commits (send_task_to_user rnd (Parsed j) t_dnd t_query t_insert s uid tg) =
                  [s\<lparr>task_history := task_history s @ [new]\<rparr>]
            \<and> raised (send_task_to_user rnd (Parsed j) t_dnd t_query t_insert s uid tg) = None
            \<and> t_user_id new = uid \<and> t_word_id new = w_id w \<and> t_task_content new = j
            \<and> t_is_correct new = None
            \<and> pending_tasks
                 (final_db s (send_task_to_user rnd (Parsed j) t_dnd t_query t_insert s uid tg))
                 uid = pending_tasks s uid @ [new]
            \<and> old \<in> set (pending_tasks s uid))
         \<and> send_task_to_user rnd Api_failure t_dnd t_query t_insert s uid tg =
             \<lparr>commits = [], sent = [Generation_failed], raised = None\<rparr>
         \<and> send_task_to_user rnd Invalid_json t_dnd t_query t_insert s uid tg =
             \<lparr>commits = [], sent = [Generation_failed], raised = None\<rparr>"
proof (intro conjI)
  let ?new = "\<lparr>t_id = next_id (map t_id (task_history s)), t_user_id = uid,
                t_word_id = w_id w, t_task_type = task_types ! (rnd mod length task_types),
                t_task_content = j, t_user_answer = None, t_is_correct = None,
                t_ai_feedback = None, t_created_at = t_insert\<rparr>"
  let ?r = "send_task_to_user rnd (Parsed j) t_dnd t_query t_insert s uid tg"
  have r: "?r = except_send Generation_failed
             (case send_task_message j (t_id ?new) of
                Inl e \<Rightarrow> \<lparr>commits = [s\<lparr>task_history := task_history s @ [?new]\<rparr>],
                           sent = [], raised = Some e\<rparr>
              | Inr msgs \<Rightarrow> \<lparr>commits = [s\<lparr>task_history := task_history s @ [?new]\<rparr>],
                              sent = msgs, raised = None\<rparr>)"
    unfolding tick_past_guards [OF assms(2-6)] create_task_history_result by simp
  have c: "commits ?r = [s\<lparr>task_history := task_history s @ [?new]\<rparr>]"
    and e: "raised ?r = None"
    unfolding r by (simp_all add: except_send_def split: sum.splits)
  have f: "pending_tasks (final_db s ?r) uid = pending_tasks s uid @ [?new]"
    by (simp add: final_db_def c pending_tasks_def)
  have o: "old \<in> set (pending_tasks s uid)"
    using assms(1) by (rule last_pending_is_pending)
  show "\<exists>new. commits ?r = [s\<lparr>task_history := task_history s @ [new]\<rparr>]
            \<and> raised ?r = None
            \<and> t_user_id new = uid \<and> t_word_id new = w_id w \<and> t_task_content new = j
            \<and> t_is_correct new = None
            \<and> pending_tasks (final_db s ?r) uid = pending_tasks s uid @ [new]
            \<and> old \<in> set (pending_tasks s uid)"
    using c e f o by (intro exI [of _ ?new]) simp
  show "send_task_to_user rnd Api_failure t_dnd t_query t_insert s uid tg =
             \<lparr>commits = [], sent = [Generation_failed], raised = None\<rparr>"
    using assms(2-5) by (intro tick_generator_failed) auto
  show "send_task_to_user rnd Invalid_json t_dnd t_query t_insert s uid tg =
             \<lparr>commits = [], sent = [Generation_failed], raised = None\<rparr>"
    using assms(2-5) by (intro tick_generator_failed) auto
qed

theorem issue_while_pending_appends_task_witness:
  "(\<exists>new. commits (send_task_to_user 1 (Parsed (Obj ex_choice)) 100 100 100 ex_db 1 501) =
             [ex_db\<lparr>task_history := task_history ex_db @ [new]\<rparr>]
        \<and> raised (send_task_to_user 1 (Parsed (Obj ex_choice)) 100 100 100 ex_db 1 501) = None
        \<and> t_user_id new = 1 \<and> t_word_id new = 2 \<and> t_is_correct new = None
        \<and> pending_tasks
             (final_db ex_db (send_task_to_user 1 (Parsed (Obj ex_choice)) 100 100 100 ex_db 1 501))
             1 = [ex_pending, new])
   \<and> send_task_to_user 1 Api_failure 100 100 100 ex_db 1 501 =
        \<lparr>commits = [], sent = [Generation_failed], raised = None\<rparr>"
proof -
  have l: "get_last_pending_task ex_db 1 = Some ex_pending"
    by (simp add: get_last_pending_task_def pending_tasks_def ex_defs)
  have u: "get_user_by_telegram_id ex_db 501 = Some ex_user"
    by (simp add: get_user_by_telegram_id_def ex_defs)
  have a: "u_is_active ex_user" "\<forall>until. u_do_not_disturb_until ex_user = Some until \<longrightarrow> until \<le> 100"
    by (simp_all add: ex_defs)
  have r: "get_words_for_review ex_db 1 1 100 = ex_fresh # []"
    by (simp add: get_words_for_review_def is_due_def review_key_def ex_defs)
  have w: "find (\<lambda>w. w_id w = p_word_id ex_fresh) (words ex_db) =
             Some \<lparr>w_id = 2, w_word_en = ''book'', w_word_ru = ''kniga''\<rparr>"
    by (simp add: ex_defs)
  have p: "pending_tasks ex_db 1 = [ex_pending]"
    by (simp add: pending_tasks_def ex_defs)
  from issue_while_pending_appends_task [OF l u a r w, of 1 "Obj ex_choice" 100]
  show ?thesis unfolding p by auto
qed


section \<open>Grading a text answer\<close>

lemma check_answer_translation:
  assumes "td_task_type td = Some ''translation_to_en'' \<or> td_task_type td = Some ''translation_to_ru''"
  shows "check_answer strip_lower ai td user_answer correct_answer = ai_call ai"
  using assms by (auto simp: check_answer_def)

lemma text_answer_of_known_sender:
  assumes "get_user_by_telegram_id s sender = Some u"
    and "get_last_pending_task s (u_id u) = Some t"
    and "t_task_content t = Obj td"
    and "td_task_type td = Some ''translation_to_en'' \<or> td_task_type td = Some ''translation_to_ru''"
  shows "handle_text_answer strip_lower ai t_reviewed t_next s sender text =
           except_send Check_failed
             (grade_text_attempt strip_lower ai t_reviewed t_next s u t td text
                (if td_task_type td = Some ''translation_to_en''
                 then td_correct_answer_en td else td_correct_answer_ru td))"
  using assms by (auto simp: handle_text_answer_def get_or_create_user_def Let_def)

lemma grade_text_attempt_no_verdict:
  assumes "td_task_type td = Some ''translation_to_en'' \<or> td_task_type td = Some ''translation_to_ru''"
    and "ai = Api_failure \<or> ai = Invalid_json \<or> ai = Parsed Non_object"
  shows "except_send Check_failed
           (grade_text_attempt strip_lower ai t_reviewed t_next s u t td text ca) =
         \<lparr>commits = [], sent = [Check_failed], raised = None\<rparr>"
  using assms(2)
  by (auto simp: grade_text_attempt_def check_answer_translation [OF assms(1)] ai_call_def
      except_send_def)

lemma advance_progress_of_row:
  assumes "get_user_word_progress s uid wid = Inr (Some p)"
    and "find (\<lambda>q. p_id q = p_id p) (user_word_progress s) = Some p"
  shows "advance_progress s uid wid ok t1 t2 =
           ([s\<lparr>user_word_progress :=
                  map (\<lambda>q. if p_id q = p_id p then reviewed p ok t1 t2 else q)
                      (user_word_progress s)\<rparr>],
            Inr (reviewed p ok t1 t2))"
  using assms(1) update_word_progress_found [OF assms(2), of ok t1 t2]
  by (simp add: advance_progress_def refresh_progress_def)

lemma grade_text_attempt_verdict:
  assumes "td_task_type td = Some ''translation_to_en'' \<or> td_task_type td = Some ''translation_to_ru''"
    and "get_user_word_progress s (u_id u) (t_word_id t) = Inr (Some p)"
    and "find (\<lambda>q. p_id q = p_id p) (user_word_progress s) = Some p"
  shows "grade_text_attempt strip_lower (Parsed (Obj v)) t_reviewed t_next s u t td text ca =
           \<lparr>commits =
              [update_task_history_answer s (t_id t) text (v_is_correct v) (v_feedback v),
               (update_task_history_answer s (t_id t) text (v_is_correct v) (v_feedback v))
                 \<lparr>user_word_progress :=
                    map (\<lambda>q. if p_id q = p_id p
                              then reviewed p (v_is_correct v) t_reviewed t_next else q)
                        (user_word_progress s)\<rparr>],
            sent = [Text_graded (truthy (v_is_correct v)) (v_feedback v)
                      (p_knowledge_percent (reviewed p (v_is_correct v) t_reviewed t_next))],
            raised = None\<rparr>"
proof -
  let ?s1 = "update_task_history_answer s (t_id t) text (v_is_correct v) (v_feedback v)"
  have rows: "user_word_progress ?s1 = user_word_progress s"
    by (simp add: update_task_history_answer_def)
  have g: "get_user_word_progress ?s1 (u_id u) (t_word_id t) = Inr (Some p)"
    using assms(2) by (simp add: get_user_word_progress_def rows)
  have f: "find (\<lambda>q. p_id q = p_id p) (user_word_progress ?s1) = Some p"
    using assms(3) by (simp add: rows)
  show ?thesis
    unfolding grade_text_attempt_def check_answer_translation [OF assms(1)]
    by (simp add: ai_call_def Let_def advance_progress_of_row [OF g f] rows)
qed


lemma ex_db_text_facts:
  "get_user_by_telegram_id ex_db 501 = Some ex_user"
  "get_last_pending_task ex_db (u_id ex_user) = Some ex_pending"
  "t_task_content ex_pending = Obj ex_translation"
  "td_task_type ex_translation = Some ''translation_to_en''
     \<or> td_task_type ex_translation = Some ''translation_to_ru''"
  "get_user_word_progress ex_db (u_id ex_user) (t_word_id ex_pending) = Inr (Some ex_progress)"
  "find (\<lambda>q. p_id q = p_id ex_progress) (user_word_progress ex_db) = Some ex_progress"
  by (simp_all add: get_user_by_telegram_id_def get_last_pending_task_def pending_tasks_def
      get_user_word_progress_def scalar_one_or_none_def ex_defs)

text \<open>
  C4, the counterexample. Grading a right answer commits twice. The database of the first
  commit has the outcome of the task recorded and every progress row as before the answer;
  only the second commit advances the progress row.
\<close>

theorem grade_is_not_atomic_counterexample:
  "length (commits ex_grade_right) = 2
   \<and> map t_is_correct (task_history (hd (commits ex_grade_right))) = [Some True]
   \<and> user_word_progress (hd (commits ex_grade_right)) = user_word_progress ex_db
   \<and> map p_knowledge_percent (user_word_progress ex_db) = [40, 0, 10]
   \<and> map p_knowledge_percent (user_word_progress (final_db ex_db ex_grade_right)) = [55, 0, 10]"
proof -
  have r: "ex_grade_right =
      \<lparr>commits =
         [update_task_history_answer ex_db (t_id ex_pending) ''I eat an apple'' (Some True)
            (Some (Fb_classifier ''Good'')),
          (update_task_history_answer ex_db (t_id ex_pending) ''I eat an apple'' (Some True)
            (Some (Fb_classifier ''Good'')))
            \<lparr>user_word_progress :=
               map (\<lambda>q. if p_id q = p_id ex_progress
                         then reviewed ex_progress (Some True) 1000 1001 else q)
                   (user_word_progress ex_db)\<rparr>],
       sent = [Text_graded True (Some (Fb_classifier ''Good''))
                 (p_knowledge_percent (reviewed ex_progress (Some True) 1000 1001))],
       raised = None\<rparr>"
    unfolding ex_grade_right_def text_answer_of_known_sender [OF ex_db_text_facts(1-4)]
      grade_text_attempt_verdict [OF ex_db_text_facts(4-6)]
    by (simp add: except_send_def truthy_def)
  have k: "p_knowledge_percent (reviewed ex_progress (Some True) 1000 1001) = 55"
    by (simp add: reviewed_fields truthy_def) (simp add: ex_defs)
  have i: "p_id ex_fresh \<noteq> p_id ex_progress" "p_id ex_later \<noteq> p_id ex_progress"
    by (simp_all add: ex_defs)
  have rows: "user_word_progress ex_db = [ex_progress, ex_fresh, ex_later]"
    "task_history ex_db = [ex_pending]"
    by (simp_all add: ex_db_def)
  show ?thesis
    unfolding r
    by (simp add: final_db_def update_task_history_answer_def rows i k)
       (simp add: ex_defs)
qed

text \<open>
  C4, as amended. For a known learner whose last pending task is a translation task:
  when the classifier call fails, or its output is no JSON or no JSON object, nothing is
  committed and the error reply is sent. When the classifier returns a verdict with a
  boolean and the learner has one progress row for the task's word, grading raises nothing
  and commits exactly twice, in two transactions: first the task row with the answer, the
  outcome and the feedback, the progress rows still as before; then
  \<^verbatim>\<open>update_word_progress\<close> on that row, the task rows as in the first commit. So a
  completed grade has both changes, in that order.
\<close>

theorem grade_commits_outcome_then_progress:
  assumes "get_user_by_telegram_id s sender = Some u"
    and "get_last_pending_task s (u_id u) = Some t"
    and "t_task_content t = Obj td"
    and "td_task_type td = Some ''translation_to_en''
           \<or> td_task_type td = Some ''translation_to_ru''"
  shows "(ai = Api_failure \<or> ai = Invalid_json \<or> ai = Parsed Non_object \<longrightarrow>
            handle_text_answer strip_lower ai t_reviewed t_next s sender answer =
              \<lparr>commits = [], sent = [Check_failed], raised = None\<rparr>)
         \<and> (get_user_word_progress s (u_id u) (t_word_id t) = Inr (Some p)
             \<and> find (\<lambda>q. p_id q = p_id p) (user_word_progress s) = Some p
             \<and> v_is_correct v = Some correct \<longrightarrow>
            (\<exists>s1 s2.
                commits (handle_text_answer strip_lower (Parsed (Obj v)) t_reviewed t_next s
                           sender answer) = [s1, s2]
                \<and> raised (handle_text_answer strip_lower (Parsed (Obj v)) t_reviewed t_next s
                            sender answer) = None
                \<and> s1 = update_task_history_answer s (t_id t) answer (Some correct) (v_feedback v)
                \<and> t\<lparr>t_user_answer := Some answer, t_is_correct := Some correct,
                      t_ai_feedback := v_feedback v\<rparr> \<in> set (task_history s1)
                \<and> user_word_progress s1 = user_word_progress s
                \<and> update_word_progress s1 (p_id p) (Some correct) t_reviewed t_next = Some s2
                \<and> task_history s2 = task_history s1))"
proof (intro conjI impI)
  assume "ai = Api_failure \<or> ai = Invalid_json \<or> ai = Parsed Non_object"
  then show "handle_text_answer strip_lower ai t_reviewed t_next s sender answer =
              \<lparr>commits = [], sent = [Check_failed], raised = None\<rparr>"
    unfolding text_answer_of_known_sender [OF assms]
    by (rule grade_text_attempt_no_verdict [OF assms(4)])
next
  assume a: "get_user_word_progress s (u_id u) (t_word_id t) = Inr (Some p)
             \<and> find (\<lambda>q. p_id q = p_id p) (user_word_progress s) = Some p
             \<and> v_is_correct v = Some correct"
  let ?r = "handle_text_answer strip_lower (Parsed (Obj v)) t_reviewed t_next s sender answer"
  let ?s1 = "update_task_history_answer s (t_id t) answer (Some correct) (v_feedback v)"
  let ?s2 = "?s1\<lparr>user_word_progress :=
                    map (\<lambda>q. if p_id q = p_id p
                              then reviewed p (Some correct) t_reviewed t_next else q)
                        (user_word_progress s)\<rparr>"
  have g: "get_user_word_progress s (u_id u) (t_word_id t) = Inr (Some p)"
    and f: "find (\<lambda>q. p_id q = p_id p) (user_word_progress s) = Some p"
    and v: "v_is_correct v = Some correct"
    using a by simp_all
  have r: "commits ?r = [?s1, ?s2]" "raised ?r = None"
    unfolding text_answer_of_known_sender [OF assms]
      grade_text_attempt_verdict [OF assms(4) g f]
    by (simp_all add: except_send_def v)
  have rows: "user_word_progress ?s1 = user_word_progress s"
    by (simp add: update_task_history_answer_def)
  have "t \<in> set (task_history s)"
    using last_pending_is_pending [OF assms(2)] by (simp add: pending_tasks_def)
  then have row: "t\<lparr>t_user_answer := Some answer, t_is_correct := Some correct,
                      t_ai_feedback := v_feedback v\<rparr> \<in> set (task_history ?s1)"
    by (force simp: update_task_history_answer_def)
  have "find (\<lambda>q. p_id q = p_id p) (user_word_progress ?s1) = Some p"
    using f by (simp add: rows)
  then have upd: "update_word_progress ?s1 (p_id p) (Some correct) t_reviewed t_next = Some ?s2"
    by (simp add: update_word_progress_found(1) rows)
  have same: "task_history ?s2 = task_history ?s1"
    by simp
  show "\<exists>s1 s2. commits ?r = [s1, s2] \<and> raised ?r = None
          \<and> s1 = update_task_history_answer s (t_id t) answer (Some correct) (v_feedback v)
          \<and> t\<lparr>t_user_answer := Some answer, t_is_correct := Some correct,
                t_ai_feedback := v_feedback v\<rparr> \<in> set (task_history s1)
          \<and> user_word_progress s1 = user_word_progress s
          \<and> update_word_progress s1 (p_id p) (Some correct) t_reviewed t_next = Some s2
          \<and> task_history s2 = task_history s1"
    using r rows row upd same by (intro exI [of _ ?s1] exI [of _ ?s2]) simp
qed

theorem grade_commits_outcome_then_progress_witness:
  "handle_text_answer (\<lambda>x. x) Api_failure 1000 1001 ex_db 501 ''I eat an apple'' =
     \<lparr>commits = [], sent = [Check_failed], raised = None\<rparr>
   \<and> (\<exists>s1 s2.
         commits (handle_text_answer (\<lambda>x. x)
                    (Parsed (Obj \<lparr>v_is_correct = Some True,
                                  v_feedback = Some (Fb_classifier ''Good'')\<rparr>))
                    1000 1001 ex_db 501 ''I eat an apple'') = [s1, s2]
         \<and> raised (handle_text_answer (\<lambda>x. x)
                    (Parsed (Obj \<lparr>v_is_correct = Some True,
                                  v_feedback = Some (Fb_classifier ''Good'')\<rparr>))
                    1000 1001 ex_db 501 ''I eat an apple'') = None
         \<and> s1 = update_task_history_answer ex_db (t_id ex_pending) ''I eat an apple''
                  (Some True) (Some (Fb_classifier ''Good''))
         \<and> ex_pending\<lparr>t_user_answer := Some ''I eat an apple'', t_is_correct := Some True,
                        t_ai_feedback := Some (Fb_classifier ''Good'')\<rparr>
             \<in> set (task_history s1)
         \<and> user_word_progress s1 = user_word_progress ex_db
         \<and> update_word_progress s1 (p_id ex_progress) (Some True) 1000 1001 = Some s2
         \<and> task_history s2 = task_history s1)"
proof -
  note th = grade_commits_outcome_then_progress [OF ex_db_text_facts(1-4),
      where strip_lower = "\<lambda>x. x" and t_reviewed = 1000 and t_next = 1001
        and answer = "''I eat an apple''"]
  have a: "handle_text_answer (\<lambda>x. x) Api_failure 1000 1001 ex_db 501 ''I eat an apple'' =
     \<lparr>commits = [], sent = [Check_failed], raised = None\<rparr>"
    using th [where ai = Api_failure] by simp
  have v: "v_is_correct \<lparr>v_is_correct = Some True, v_feedback = Some (Fb_classifier ''Good'')\<rparr>
             = Some True"
    by simp
  from th [where p = ex_progress and correct = True
             and v = "\<lparr>v_is_correct = Some True, v_feedback = Some (Fb_classifier ''Good'')\<rparr>"]
    ex_db_text_facts(5,6) v a
  show ?thesis by simp
qed

section \<open>A verdict without the boolean\<close>

text \<open>
  C5, the code at the failing input. The classifier returns a JSON object with a feedback
  text and no \<^verbatim>\<open>is_correct\<close>. Nothing is raised and the error reply is not sent: the
  learner gets the reply of a wrong answer. The progress row is marked wrong (score 40
  down to 30, one more attempt, due four hours later), while the task keeps a null
  outcome, so it is still the learner's pending task, now with the answer and the feedback
  written into it.
\<close>

theorem missing_verdict_is_graded_wrong:
  "raised ex_grade_missing = None
   \<and> sent ex_grade_missing = [Text_graded False (Some (Fb_classifier ''ok'')) 30]
   \<and> length (commits ex_grade_missing) = 2
   \<and> user_word_progress (final_db ex_db ex_grade_missing) =
       [ex_progress\<lparr>p_knowledge_percent := 30, p_last_reviewed_at := Some 1000,
                     p_next_review_at := 1001 + 14400000000, p_total_answers_count := 5\<rparr>,
        ex_fresh, ex_later]
   \<and> get_last_pending_task (final_db ex_db ex_grade_missing) 1 =
       Some (ex_pending\<lparr>t_user_answer := Some ''I eat apple'',
                         t_ai_feedback := Some (Fb_classifier ''ok'')\<rparr>)"
proof -
  have r: "ex_grade_missing =
      \<lparr>commits =
         [update_task_history_answer ex_db (t_id ex_pending) ''I eat apple'' None
            (Some (Fb_classifier ''ok'')),
          (update_task_history_answer ex_db (t_id ex_pending) ''I eat apple'' None
            (Some (Fb_classifier ''ok'')))
            \<lparr>user_word_progress :=
               map (\<lambda>q. if p_id q = p_id ex_progress
                         then reviewed ex_progress None 1000 1001 else q)
                   (user_word_progress ex_db)\<rparr>],
       sent = [Text_graded False (Some (Fb_classifier ''ok''))
                 (p_knowledge_percent (reviewed ex_progress None 1000 1001))],
       raised = None\<rparr>"
    unfolding ex_grade_missing_def text_answer_of_known_sender [OF ex_db_text_facts(1-4)]
      grade_text_attempt_verdict [OF ex_db_text_facts(4-6)]
    by (simp add: except_send_def truthy_def)
  have k: "reviewed ex_progress None 1000 1001 =
      ex_progress\<lparr>p_knowledge_percent := 30, p_last_reviewed_at := Some 1000,
                   p_next_review_at := 1001 + 14400000000, p_total_answers_count := 5\<rparr>"
    by (simp add: reviewed_def truthy_def Let_def MIN_KNOWLEDGE_def INCORRECT_ANSWER_PENALTY_def
        get_review_interval_bands timedelta_hours_def) (simp add: ex_defs)
  have k30: "p_knowledge_percent (reviewed ex_progress None 1000 1001) = 30"
    unfolding k by simp
  have i: "p_id ex_fresh \<noteq> p_id ex_progress" "p_id ex_later \<noteq> p_id ex_progress"
    by (simp_all add: ex_defs)
  have rows: "user_word_progress ex_db = [ex_progress, ex_fresh, ex_later]"
    "task_history ex_db = [ex_pending]"
    by (simp_all add: ex_db_def)
  show ?thesis
    unfolding r k30
    apply (intro conjI)
    subgoal by simp
    subgoal by simp
    subgoal by simp
    subgoal by (simp add: final_db_def update_task_history_answer_def rows i k)
    subgoal by (simp add: final_db_def update_task_history_answer_def get_last_pending_task_def
          pending_tasks_def rows) (simp add: ex_pending_def)
    done
qed


section \<open>Grading by callback\<close>

lemma get_or_create_user_tables:
  assumes "get_or_create_user s tg = (c0, s0, user)"
  shows "task_history s0 = task_history s"
    and "user_word_progress s0 = user_word_progress s"
    and "\<forall>c\<in>set c0. task_history c = task_history s
           \<and> user_word_progress c = user_word_progress s"
    and "get_user_by_telegram_id s tg \<noteq> None \<Longrightarrow> c0 = [] \<and> s0 = s"
  using assms
  by (auto simp: get_or_create_user_def create_user_def Let_def split: option.splits)

lemma last_of_unchanged_commits:
  assumes "\<forall>c\<in>set cs. task_history c = task_history s"
  shows "task_history (last (s # cs)) = task_history s"
  using assms by (cases cs rule: rev_cases) auto

lemma advance_progress_tasks:
  "\<forall>c\<in>set (fst (advance_progress s uid wid ok t1 t2)). task_history c = task_history s"
  by (auto simp: advance_progress_def update_word_progress_def
      split: sum.splits option.splits)

lemma grade_text_attempt_tasks:
  assumes "c \<in> set (commits (grade_text_attempt strip_lower ai t1 t2 s u row td answer ca))"
  shows "\<exists>ic fb. task_history c =
           task_history (update_task_history_answer s (t_id row) answer ic fb)"
proof (cases "check_answer strip_lower ai td answer ca")
  case (Inl e)
  then show ?thesis using assms by (simp add: grade_text_attempt_def)
next
  case (Inr j)
  show ?thesis
  proof (cases j)
    case Non_object
    then show ?thesis using assms Inr by (simp add: grade_text_attempt_def)
  next
    case (Obj v)
    let ?s1 = "update_task_history_answer s (t_id row) answer (v_is_correct v) (v_feedback v)"
    obtain cs r where a: "advance_progress ?s1 (u_id u) (t_word_id row) (v_is_correct v) t1 t2
                            = (cs, r)"
      by (cases "advance_progress ?s1 (u_id u) (t_word_id row) (v_is_correct v) t1 t2")
    have cs: "\<forall>c\<in>set cs. task_history c = task_history ?s1"
      using advance_progress_tasks [of ?s1 "u_id u" "t_word_id row" "v_is_correct v" t1 t2] a
      by simp
    have "commits (grade_text_attempt strip_lower ai t1 t2 s u row td answer ca) = ?s1 # cs"
      using Inr Obj a by (simp add: grade_text_attempt_def Let_def split: sum.splits)
    then have "task_history c = task_history ?s1"
      using assms cs by auto
    then show ?thesis by blast
  qed
qed

lemma answered_row_kept_by_update:
  assumes "distinct (map t_id (task_history s))"
    and "a \<in> set (task_history s)" and "t_is_correct a \<noteq> None"
    and "row \<in> set (task_history s)" and "t_is_correct row = None"
  shows "a \<in> set (task_history (update_task_history_answer s (t_id row) answer ic fb))"
proof -
  have "inj_on t_id (set (task_history s))"
    using assms(1) by (simp add: distinct_map)
  moreover have "a \<noteq> row" using assms(3,5) by auto
  ultimately have "t_id a \<noteq> t_id row"
    using assms(2,4) by (auto dest: inj_onD)
  then show ?thesis
    using assms(2) by (force simp: update_task_history_answer_def)
qed

lemma text_answer_keeps_answered:
  assumes "distinct (map t_id (task_history s))"
    and "a \<in> set (task_history s)" and "t_is_correct a \<noteq> None"
  shows "\<forall>c\<in>set (commits (handle_text_answer strip_lower ai t1 t2 s sender answer)).
           a \<in> set (task_history c)"
proof
  fix c
  assume c: "c \<in> set (commits (handle_text_answer strip_lower ai t1 t2 s sender answer))"
  obtain c0 s0 user where g: "get_or_create_user s sender = (c0, s0, user)"
    by (cases "get_or_create_user s sender")
  note tb = get_or_create_user_tables [OF g]
  show "a \<in> set (task_history c)"
  proof (cases "c \<in> set c0")
    case True
    then show ?thesis using tb(3) assms(2) by simp
  next
    case False
    then obtain row td ca where row: "get_last_pending_task s0 (u_id user) = Some row"
      and in_try: "c \<in> set (commits (grade_text_attempt strip_lower ai t1 t2 s0 user row td
                                        answer ca))"
      using c g
      by (auto simp: handle_text_answer_def Let_def except_send_def
          split: option.splits json.splits if_splits)
    obtain ic fb where h: "task_history c =
        task_history (update_task_history_answer s0 (t_id row) answer ic fb)"
      using grade_text_attempt_tasks [OF in_try] by blast
    have r: "row \<in> set (task_history s)" "t_is_correct row = None"
      using last_pending_is_pending [OF row] tb(1) by (simp_all add: pending_tasks_def)
    have "a \<in> set (task_history (update_task_history_answer s (t_id row) answer ic fb))"
      using assms r by (rule answered_row_kept_by_update)
    then show ?thesis
      using h tb(1) by (simp add: update_task_history_answer_def)
  qed
qed

text \<open>
  C6. A callback for a task whose outcome is set gets the already-answered alert: nothing
  is raised, and no commit changes a task row (so the stored outcome, answer and feedback
  stay) or a progress row. A callback for an unknown task id gets the not-found alert in
  the same way. For a known sender nothing is committed at all; for an unknown sender the
  only commit is the new user row. A text answer is graded against the task
  \<^verbatim>\<open>get_last_pending_task\<close> returns, whose outcome is never set; with \<^verbatim>\<open>id\<close> a
  primary key, every commit of \<^verbatim>\<open>handle_text_answer\<close> holds each answered task row
  as it was.
\<close>

theorem answered_task_is_not_regraded:
  "(find (\<lambda>t. t_id t = task_id) (task_history s) = Some t \<and> t_is_correct t \<noteq> None \<longrightarrow>
      sent (handle_multiple_choice_answer t_reviewed t_next s sender task_id selected_index) =
        [Alert_already_answered]
      \<and> raised (handle_multiple_choice_answer t_reviewed t_next s sender task_id selected_index)
          = None)
   \<and> (find (\<lambda>t. t_id t = task_id) (task_history s) = None \<longrightarrow>
      sent (handle_multiple_choice_answer t_reviewed t_next s sender task_id selected_index) =
        [Alert_not_found]
      \<and> raised (handle_multiple_choice_answer t_reviewed t_next s sender task_id selected_index)
          = None)
   \<and> ((find (\<lambda>t. t_id t = task_id) (task_history s) = None
         \<or> (\<exists>t. find (\<lambda>t. t_id t = task_id) (task_history s) = Some t
                \<and> t_is_correct t \<noteq> None)) \<longrightarrow>
      (\<forall>c\<in>set (commits (handle_multiple_choice_answer t_reviewed t_next s sender task_id
                          selected_index)).
          task_history c = task_history s \<and> user_word_progress c = user_word_progress s)
      \<and> (get_user_by_telegram_id s sender \<noteq> None \<longrightarrow>
            commits (handle_multiple_choice_answer t_reviewed t_next s sender task_id
                       selected_index) = []))
   \<and> (\<forall>t. get_last_pending_task s uid = Some t \<longrightarrow>
          t \<in> set (task_history s) \<and> t_is_correct t = None)
   \<and> (distinct (map t_id (task_history s)) \<and> a \<in> set (task_history s)
        \<and> t_is_correct a \<noteq> None \<longrightarrow>
        (\<forall>c\<in>set (commits (handle_text_answer strip_lower ai t_reviewed t_next s sender
                            answer)).
            a \<in> set (task_history c)))"
proof -
  obtain c0 s0 user where g: "get_or_create_user s sender = (c0, s0, user)"
    by (cases "get_or_create_user s sender")
  note tb = get_or_create_user_tables [OF g]
  let ?r = "handle_multiple_choice_answer t_reviewed t_next s sender task_id selected_index"
  have answered: "?r = \<lparr>commits = c0, sent = [Alert_already_answered], raised = None\<rparr>"
    if "find (\<lambda>t. t_id t = task_id) (task_history s) = Some t" "t_is_correct t \<noteq> None" for t
    using that g tb(1) by (simp add: handle_multiple_choice_answer_def)
  have unknown: "?r = \<lparr>commits = c0, sent = [Alert_not_found], raised = None\<rparr>"
    if "find (\<lambda>t. t_id t = task_id) (task_history s) = None"
    using that g tb(1) by (simp add: handle_multiple_choice_answer_def)
  have pend: "t \<in> set (task_history s) \<and> t_is_correct t = None"
    if "get_last_pending_task s uid = Some t" for t
    using last_pending_is_pending [OF that] by (simp add: pending_tasks_def)
  show ?thesis
  proof (intro conjI impI allI)
    assume "find (\<lambda>t. t_id t = task_id) (task_history s) = Some t \<and> t_is_correct t \<noteq> None"
    then show "sent ?r = [Alert_already_answered]" and "raised ?r = None"
      using answered [of t] by simp_all
  next
    assume "find (\<lambda>t. t_id t = task_id) (task_history s) = None"
    then show "sent ?r = [Alert_not_found]" and "raised ?r = None"
      using unknown by simp_all
  next
    assume a: "find (\<lambda>t. t_id t = task_id) (task_history s) = None
         \<or> (\<exists>t. find (\<lambda>t. t_id t = task_id) (task_history s) = Some t
                \<and> t_is_correct t \<noteq> None)"
    then have c: "commits ?r = c0"
      using answered unknown by auto
    show "\<forall>c\<in>set (commits ?r).
          task_history c = task_history s \<and> user_word_progress c = user_word_progress s"
      unfolding c by (rule tb(3))
    assume "get_user_by_telegram_id s sender \<noteq> None"
    then show "commits ?r = []"
      unfolding c using tb(4) by simp
  next
    fix t assume "get_last_pending_task s uid = Some t"
    then show "t \<in> set (task_history s)" and "t_is_correct t = None"
      using pend by simp_all
  next
    assume "distinct (map t_id (task_history s)) \<and> a \<in> set (task_history s)
        \<and> t_is_correct a \<noteq> None"
    then show "\<forall>c\<in>set (commits (handle_text_answer strip_lower ai t_reviewed t_next s
                                sender answer)).
            a \<in> set (task_history c)"
      by (intro text_answer_keeps_answered) simp_all
  qed
qed

theorem answered_task_is_not_regraded_witness:
  "handle_multiple_choice_answer 1000 1001 ex_db_choice 501 1 0 =
     \<lparr>commits = [], sent = [Alert_already_answered], raised = None\<rparr>
   \<and> handle_multiple_choice_answer 1000 1001 ex_db_choice 501 9 0 =
     \<lparr>commits = [], sent = [Alert_not_found], raised = None\<rparr>
   \<and> t_is_correct ex_pending = None
   \<and> commits ex_grade_mixed \<noteq> []
   \<and> ex_answered \<in> set (task_history (final_db ex_db_mixed ex_grade_mixed))"
proof -
  have f1: "find (\<lambda>t. t_id t = 1) (task_history ex_db_choice) = Some ex_answered
            \<and> t_is_correct ex_answered \<noteq> None"
    by (simp add: ex_defs)
  have f9: "find (\<lambda>t. t_id t = 9) (task_history ex_db_choice) = None"
    by (simp add: ex_defs)
  have u: "get_user_by_telegram_id ex_db_choice 501 \<noteq> None"
    by (simp add: get_user_by_telegram_id_def ex_defs)
  have l: "get_last_pending_task ex_db 1 = Some ex_pending"
    by (simp add: get_last_pending_task_def pending_tasks_def ex_defs)
  have r1: "handle_multiple_choice_answer 1000 1001 ex_db_choice 501 1 0 =
     \<lparr>commits = [], sent = [Alert_already_answered], raised = None\<rparr>"
    using answered_task_is_not_regraded
            [where s = ex_db_choice and task_id = 1 and t = ex_answered and sender = 501
               and t_reviewed = 1000 and t_next = 1001 and selected_index = 0]
          f1 u
    by (intro outcome.equality) auto
  have r9: "handle_multiple_choice_answer 1000 1001 ex_db_choice 501 9 0 =
     \<lparr>commits = [], sent = [Alert_not_found], raised = None\<rparr>"
    using answered_task_is_not_regraded
            [where s = ex_db_choice and task_id = 9 and sender = 501
               and t_reviewed = 1000 and t_next = 1001 and selected_index = 0]
          f9 u
    by (intro outcome.equality) auto
  have p: "t_is_correct ex_pending = None"
    using answered_task_is_not_regraded [where s = ex_db and uid = 1] l by blast
  have m: "get_user_by_telegram_id ex_db_mixed 501 = Some ex_user"
    "get_last_pending_task ex_db_mixed (u_id ex_user) = Some (ex_pending\<lparr>t_id := 2\<rparr>)"
    "t_task_content (ex_pending\<lparr>t_id := 2\<rparr>) = Obj ex_translation"
    "td_task_type ex_translation = Some ''translation_to_en''
       \<or> td_task_type ex_translation = Some ''translation_to_ru''"
    "get_user_word_progress ex_db_mixed (u_id ex_user) (t_word_id (ex_pending\<lparr>t_id := 2\<rparr>)) =
       Inr (Some ex_progress)"
    "find (\<lambda>q. p_id q = p_id ex_progress) (user_word_progress ex_db_mixed) = Some ex_progress"
    by (simp_all add: get_user_by_telegram_id_def get_last_pending_task_def pending_tasks_def
        get_user_word_progress_def scalar_one_or_none_def ex_db_mixed_def ex_defs)
  have n: "commits ex_grade_mixed \<noteq> []"
    unfolding ex_grade_mixed_def text_answer_of_known_sender [OF m(1-4)]
      grade_text_attempt_verdict [OF m(4-6)]
    by (simp add: except_send_def)
  have d: "distinct (map t_id (task_history ex_db_mixed)) \<and> ex_answered \<in> set (task_history ex_db_mixed)
        \<and> t_is_correct ex_answered \<noteq> None"
    by (simp add: ex_db_mixed_def ex_defs)
  have "\<forall>c\<in>set (commits ex_grade_mixed). ex_answered \<in> set (task_history c)"
    unfolding ex_grade_mixed_def
    using answered_task_is_not_regraded [where s = ex_db_mixed and a = ex_answered] d
    by blast
  then have k: "ex_answered \<in> set (task_history (final_db ex_db_mixed ex_grade_mixed))"
    using n last_in_set [OF n] by (simp add: final_db_def)
  from r1 r9 p n k show ?thesis by blast
qed


section \<open>The option index of a callback\<close>

lemma py_getitem_out_of_range:
  "i < - int (length xs) \<or> int (length xs) \<le> i \<Longrightarrow> py_getitem xs i = Inl IndexError"
  by (auto simp: py_getitem_def)

lemma py_getitem_in_range:
  "- int (length xs) \<le> i \<Longrightarrow> i < int (length xs) \<Longrightarrow> \<exists>x. py_getitem xs i = Inr x"
  by (auto simp: py_getitem_def)

text \<open>
  C10. Grading a pending multiple-choice task indexes the stored options with the submitted
  index and with the stored \<^verbatim>\<open>correct_index\<close> unchecked. A submitted index outside the
  list (Python counts a negative index from the end) raises \<^verbatim>\<open>IndexError\<close>; a payload
  without \<^verbatim>\<open>correct_index\<close> raises \<^verbatim>\<open>TypeError\<close>, and one whose
  \<^verbatim>\<open>correct_index\<close> is outside the list raises \<^verbatim>\<open>IndexError\<close>. In each case the
  exception leaves the handler, no message is sent, no commit changes a task or progress
  row, and the task is pending as before.
\<close>

theorem choice_index_is_unchecked:
  assumes "find (\<lambda>t. t_id t = task_id) (task_history s) = Some t"
    and "t_is_correct t = None"
    and "t_task_content t = Obj td"
  shows "((selected_index < - int (length (option_list (td_options td)))
            \<or> int (length (option_list (td_options td))) \<le> selected_index) \<longrightarrow>
           raised (handle_multiple_choice_answer t_reviewed t_next s sender task_id
                     selected_index) = Some IndexError)
         \<and> (- int (length (option_list (td_options td))) \<le> selected_index
             \<and> selected_index < int (length (option_list (td_options td)))
             \<and> td_correct_index td = None \<longrightarrow>
           raised (handle_multiple_choice_answer t_reviewed t_next s sender task_id
                     selected_index) = Some TypeError)
         \<and> (- int (length (option_list (td_options td))) \<le> selected_index
             \<and> selected_index < int (length (option_list (td_options td)))
             \<and> td_correct_index td = Some ci
             \<and> (ci < - int (length (option_list (td_options td)))
                 \<or> int (length (option_list (td_options td))) \<le> ci) \<longrightarrow>
           raised (handle_multiple_choice_answer t_reviewed t_next s sender task_id
                     selected_index) = Some IndexError)
         \<and> (raised (handle_multiple_choice_answer t_reviewed t_next s sender task_id
                      selected_index) \<in> {Some IndexError, Some TypeError} \<longrightarrow>
             sent (handle_multiple_choice_answer t_reviewed t_next s sender task_id
                     selected_index) = []
             \<and> (\<forall>c\<in>set (commits (handle_multiple_choice_answer t_reviewed t_next s sender
                                 task_id selected_index)).
                   task_history c = task_history s
                   \<and> user_word_progress c = user_word_progress s)
             \<and> find (\<lambda>t. t_id t = task_id)
                  (task_history (final_db s (handle_multiple_choice_answer t_reviewed t_next s
                                               sender task_id selected_index))) = Some t)"
proof -
  obtain c0 s0 user where g: "get_or_create_user s sender = (c0, s0, user)"
    by (cases "get_or_create_user s sender")
  note tb = get_or_create_user_tables [OF g]
  let ?r = "handle_multiple_choice_answer t_reviewed t_next s sender task_id selected_index"
  let ?os = "option_list (td_options td)"
  let ?stop = "\<lambda>e. \<lparr>commits = c0, sent = [], raised = Some e\<rparr>"
  have f0: "find (\<lambda>t. t_id t = task_id) (task_history s0) = Some t"
    using assms(1) tb(1) by simp
  have r1: "?r = ?stop IndexError"
    if "selected_index < - int (length ?os) \<or> int (length ?os) \<le> selected_index"
    using g f0 assms(2,3) py_getitem_out_of_range [OF that]
    by (simp add: handle_multiple_choice_answer_def Let_def)
  have r2: "?r = ?stop TypeError"
    if lo: "- int (length ?os) \<le> selected_index" and hi: "selected_index < int (length ?os)"
      and ci: "td_correct_index td = None"
  proof -
    obtain x where "py_getitem ?os selected_index = Inr x"
      using py_getitem_in_range [OF lo hi] by blast
    then show ?thesis
      using g f0 assms(2,3) ci
      by (simp add: handle_multiple_choice_answer_def Let_def)
  qed
  have r3: "?r = ?stop IndexError"
    if lo: "- int (length ?os) \<le> selected_index" and hi: "selected_index < int (length ?os)"
      and ci: "td_correct_index td = Some ci"
      and out: "ci < - int (length ?os) \<or> int (length ?os) \<le> ci"
  proof -
    obtain x where "py_getitem ?os selected_index = Inr x"
      using py_getitem_in_range [OF lo hi] by blast
    then show ?thesis
      using g f0 assms(2,3) ci py_getitem_out_of_range [OF out]
      by (simp add: handle_multiple_choice_answer_def Let_def)
  qed
  have early: "sent ?r = [] \<and> commits ?r = c0"
    if "raised ?r \<in> {Some IndexError, Some TypeError}"
  proof (cases "py_getitem ?os selected_index")
    case (Inl e)
    then show ?thesis
      using g f0 assms(2,3) by (simp add: handle_multiple_choice_answer_def Let_def)
  next
    case (Inr x)
    note sel = Inr
    show ?thesis
    proof (cases "case td_correct_index td of None \<Rightarrow> Inl TypeError
                                             | Some ci \<Rightarrow> py_getitem ?os ci")
      case (Inl e)
      then show ?thesis
        using g f0 assms(2,3) sel by (simp add: handle_multiple_choice_answer_def Let_def)
    next
      case (Inr y)
      have "raised ?r \<notin> {Some IndexError, Some TypeError}"
        using g f0 assms(2,3) sel Inr
        by (auto simp: handle_multiple_choice_answer_def Let_def advance_progress_def
            get_user_word_progress_def scalar_one_or_none_def refresh_progress_def
            split: prod.splits sum.splits option.splits list.splits)
      with that show ?thesis by simp
    qed
  qed
  show ?thesis
  proof (intro conjI impI)
    assume "selected_index < - int (length ?os) \<or> int (length ?os) \<le> selected_index"
    then show "raised ?r = Some IndexError" using r1 by simp
  next
    assume "- int (length ?os) \<le> selected_index \<and> selected_index < int (length ?os)
             \<and> td_correct_index td = None"
    then show "raised ?r = Some TypeError" using r2 by simp
  next
    assume "- int (length ?os) \<le> selected_index \<and> selected_index < int (length ?os)
             \<and> td_correct_index td = Some ci
             \<and> (ci < - int (length ?os) \<or> int (length ?os) \<le> ci)"
    then show "raised ?r = Some IndexError" using r3 by simp
  next
    assume a: "raised ?r \<in> {Some IndexError, Some TypeError}"
    show "sent ?r = []" using early [OF a] by simp
    have c: "commits ?r = c0" using early [OF a] by simp
    show "\<forall>c\<in>set (commits ?r).
            task_history c = task_history s \<and> user_word_progress c = user_word_progress s"
      unfolding c by (rule tb(3))
    have "task_history (final_db s ?r) = task_history s"
      unfolding final_db_def c using tb(3) by (intro last_of_unchanged_commits) simp
    then show "find (\<lambda>t. t_id t = task_id) (task_history (final_db s ?r)) = Some t"
      using assms(1) by simp
  qed
qed

theorem choice_index_is_unchecked_witness:
  "raised (handle_multiple_choice_answer 1000 1001 ex_db_choice 501 2 4) = Some IndexError
   \<and> sent (handle_multiple_choice_answer 1000 1001 ex_db_choice 501 2 4) = []
   \<and> find (\<lambda>t. t_id t = 2)
        (task_history (final_db ex_db_choice
           (handle_multiple_choice_answer 1000 1001 ex_db_choice 501 2 4))) =
       Some ex_choice_task
   \<and> raised (handle_multiple_choice_answer 1000 1001 ex_db_no_index 501 2 1) = Some TypeError
   \<and> raised (handle_multiple_choice_answer 1000 1001 ex_db_bad_index 501 2 1) = Some IndexError"
proof -
  have f: "find (\<lambda>t. t_id t = 2) (task_history ex_db_choice) = Some ex_choice_task"
    "t_is_correct ex_choice_task = None" "t_task_content ex_choice_task = Obj ex_choice"
    by (simp_all add: ex_defs)
  have n: "length (option_list (td_options ex_choice)) = 4"
    by (simp add: option_list_def ex_defs)
  have a: "raised (handle_multiple_choice_answer 1000 1001 ex_db_choice 501 2 4) = Some IndexError
     \<and> sent (handle_multiple_choice_answer 1000 1001 ex_db_choice 501 2 4) = []
     \<and> find (\<lambda>t. t_id t = 2)
        (task_history (final_db ex_db_choice
           (handle_multiple_choice_answer 1000 1001 ex_db_choice 501 2 4))) =
       Some ex_choice_task"
    using choice_index_is_unchecked [OF f, of 4 1000 1001 501] by (simp add: n)
  have f2: "find (\<lambda>t. t_id t = 2) (task_history ex_db_no_index) =
              Some (ex_choice_task\<lparr>t_task_content := Obj (ex_choice\<lparr>td_correct_index := None\<rparr>)\<rparr>)"
    "t_is_correct (ex_choice_task\<lparr>t_task_content := Obj (ex_choice\<lparr>td_correct_index := None\<rparr>)\<rparr>)
       = None"
    "t_task_content (ex_choice_task\<lparr>t_task_content := Obj (ex_choice\<lparr>td_correct_index := None\<rparr>)\<rparr>)
       = Obj (ex_choice\<lparr>td_correct_index := None\<rparr>)"
    by (simp_all add: ex_db_no_index_def ex_defs)
  have n2: "length (option_list (td_options (ex_choice\<lparr>td_correct_index := None\<rparr>))) = 4"
    "td_correct_index (ex_choice\<lparr>td_correct_index := None\<rparr>) = None"
    by (simp_all add: option_list_def ex_defs)
  have b: "raised (handle_multiple_choice_answer 1000 1001 ex_db_no_index 501 2 1) = Some TypeError"
    using choice_index_is_unchecked [OF f2, of 1 1000 1001 501] by (simp add: n n2)
  have f3: "find (\<lambda>t. t_id t = 2) (task_history ex_db_bad_index) =
              Some (ex_choice_task\<lparr>t_task_content := Obj (ex_choice\<lparr>td_correct_index := Some 4\<rparr>)\<rparr>)"
    "t_is_correct (ex_choice_task\<lparr>t_task_content := Obj (ex_choice\<lparr>td_correct_index := Some 4\<rparr>)\<rparr>)
       = None"
    "t_task_content (ex_choice_task\<lparr>t_task_content := Obj (ex_choice\<lparr>td_correct_index := Some 4\<rparr>)\<rparr>)
       = Obj (ex_choice\<lparr>td_correct_index := Some 4\<rparr>)"
    by (simp_all add: ex_db_bad_index_def ex_defs)
  have n3: "length (option_list (td_options (ex_choice\<lparr>td_correct_index := Some 4\<rparr>))) = 4"
    "td_correct_index (ex_choice\<lparr>td_correct_index := Some 4\<rparr>) = Some 4"
    by (simp_all add: option_list_def ex_defs)
  have c: "raised (handle_multiple_choice_answer 1000 1001 ex_db_bad_index 501 2 1) = Some IndexError"
    using choice_index_is_unchecked [OF f3, of 1 1000 1001 501 4] by (simp add: n n3)
  from a b c show ?thesis by blast
qed

end
